theory Spec2Isabelle
  imports Main "HOL-Library.Word"
begin

unbundle bit_operations_syntax

section \<open>Data model: the game configuration (framework/core/config/types.ts)\<close>

text \<open>
  The TypeScript interfaces become records. Record fields are global names in
  Isabelle, so a field whose name is used by two interfaces (or by a HOL
  constant, as \<open>id\<close>) carries a prefix: \<open>choice_id\<close> is \<open>ChoiceOption.id\<close>,
  \<open>cond_player1\<close> is \<open>PayoffRule.condition.player1\<close>, \<open>out_player1\<close> is
  \<open>PayoffRule.outcome.player1\<close>, \<open>meta_id\<close> is \<open>GameMetadata.id\<close>.
  A JavaScript \<open>number\<close> that is read from a document or counts rounds is
  modelled as an integer (round numbers and scores are integers in the data
  model); the totals, which the code computes by floating-point addition,
  have the type \<open>jsnum\<close> of the section on number addition. A JavaScript string
  is a \<open>string\<close>, the list of its characters; an optional field \<open>f?: T\<close> is a
  \<open>T option\<close>, \<open>None\<close> standing for \<open>undefined\<close>.
\<close>

type_synonym number = int

record ChoiceOption =
  choice_id :: string
  choice_label :: string
  choice_description :: "string option"
  choice_icon :: "string option"

record Condition =
  cond_player1 :: string
  cond_player2 :: string

record Outcome =
  out_player1 :: number
  out_player2 :: number

record PayoffRule =
  condition :: Condition
  outcome :: Outcome
  outcomeText :: "string option"

record GameMetadata =
  meta_id :: string
  meta_name :: string
  meta_description :: string
  version :: string
  rulesUrl :: "string option"
  tags :: "string list option"

record GameProgression =
  totalRounds :: number
  startingPlayer :: number
  alternateStarter :: bool
  showRunningTotal :: bool

record GameUI =
  primaryColor :: "string option"
  secondaryColor :: "string option"
  cssClass :: "string option"
  showPayoffMatrix :: bool
  showChoiceDescriptions :: bool
  choiceMadeText :: "string option"
  resultsHeaderText :: "string option"

record GameConfig =
  metadata :: GameMetadata
  choices :: "ChoiceOption list"
  payoffRules :: "PayoffRule list"
  progression :: GameProgression
  ui :: GameUI

section \<open>JavaScript primitives used by the engine\<close>

text \<open>
  \<open>!c\<close> for \<open>c : string | undefined\<close>: a value is falsy when it is
  \<open>undefined\<close> or the empty string.
\<close>

definition truthy :: "string option \<Rightarrow> bool" where
  "truthy c = (case c of None \<Rightarrow> False | Some s \<Rightarrow> s \<noteq> [])"

text \<open>
  The remainder operator \<open>a % b\<close> on integers: the result takes the sign of
  the dividend (truncated division), unlike HOL's \<open>mod\<close>.
\<close>

definition js_rem :: "int \<Rightarrow> int \<Rightarrow> int" where
  "js_rem a b = sgn a * (\<bar>a\<bar> mod \<bar>b\<bar>)"

section \<open>Turn engine (framework/core/engine/turnEngine.ts)\<close>

definition determineRoundStarter :: "GameConfig \<Rightarrow> number \<Rightarrow> number" where
  "determineRoundStarter config roundNumber =
     (if \<not> alternateStarter (progression config) then startingPlayer (progression config)
      else if js_rem roundNumber 2 = 1 then startingPlayer (progression config)
      else (if startingPlayer (progression config) = 1 then 2 else 1))"

definition isRoundComplete :: "string option \<Rightarrow> string option \<Rightarrow> bool" where
  "isRoundComplete player1Choice player2Choice =
     (player1Choice \<noteq> None \<and> player2Choice \<noteq> None)"

definition isGameComplete :: "number \<Rightarrow> number \<Rightarrow> bool \<Rightarrow> bool" where
  "isGameComplete currentRound total_rounds roundComplete =
     (currentRound = total_rounds \<and> roundComplete)"

definition determineNextPlayer ::
  "GameConfig \<Rightarrow> number \<Rightarrow> string option \<Rightarrow> string option \<Rightarrow> number option" where
  "determineNextPlayer config roundNumber player1Choice player2Choice =
     (let starter = determineRoundStarter config roundNumber in
      if \<not> truthy player1Choice \<and> \<not> truthy player2Choice then Some starter
      else
        let responder = (if starter = 1 then 2 else 1);
            starterChoice = (if starter = 1 then player1Choice else player2Choice);
            responderChoice = (if responder = 1 then player1Choice else player2Choice)
        in if \<not> truthy starterChoice then Some starter
           else if \<not> truthy responderChoice then Some responder
           else None)"

section \<open>Thrown values\<close>

text \<open>
  Every \<open>throw\<close> of the modelled modules becomes an \<open>Inl\<close> result carrying the
  error object: the class and the constructor arguments the source passes.
  \<open>ConfigValidationError\<close> carries its message, its list of errors and the
  optional config path; \<open>PayoffCalculationError\<close> its message and the two choices.
\<close>

datatype exn =
    Error string
  | HMACError string
  | PayoffCalculationError string string string
  | ConfigValidationError string "string list" "string option"
  | ConfigLoadError string

section \<open>HMAC signing of tokens (framework/storage/hmacManager)\<close>

text \<open>
  \<open>CryptoJS.HmacSHA256(data, key).toString(CryptoJS.enc.Hex)\<close> belongs to a
  library, so it is a parameter \<open>hm\<close> of every function that calls it: \<open>hm data key\<close>
  is \<open>Some\<close> of the hex digest, or \<open>None\<close> when the library throws.
\<close>

type_synonym hmac_lib = "string \<Rightarrow> string \<Rightarrow> string option"

definition GAME_SECRET :: string where
  "GAME_SECRET = ''prisoners-dilemma-2024-v1''"

record SignedData =
  data :: string
  signature :: string

definition generateHMAC :: "hmac_lib \<Rightarrow> string \<Rightarrow> exn + string" where
  "generateHMAC hm d =
     (case hm d GAME_SECRET of
        Some hex \<Rightarrow> Inr hex
      | None \<Rightarrow> Inl (HMACError ''Failed to generate HMAC signature''))"

text \<open>
  \<open>s.charCodeAt(i)\<close> as the 32-bit integer the bitwise operators work on; it
  is only called below the length of \<open>s\<close>.
\<close>

definition charCodeAt :: "string \<Rightarrow> nat \<Rightarrow> 32 word" where
  "charCodeAt s i = of_char (s ! i)"

text \<open>
  The comparison loop of \<open>verifyHMAC\<close>:
  \<open>for (i = 0; i < signature.length; i++) result |= signature.charCodeAt(i) ^ expected.charCodeAt(i)\<close>.
\<close>

definition compareLoop :: "string \<Rightarrow> string \<Rightarrow> 32 word" where
  "compareLoop sg expected =
     fold (\<lambda>i result. result OR (charCodeAt sg i XOR charCodeAt expected i))
       [0..<length sg] 0"

definition verifyHMAC :: "hmac_lib \<Rightarrow> string \<Rightarrow> string \<Rightarrow> bool" where
  "verifyHMAC hm d sg =
     (case generateHMAC hm d of
        Inl _ \<Rightarrow> False
      | Inr expected \<Rightarrow>
          if length sg \<noteq> length expected then False
          else compareLoop sg expected = 0)"

definition signData :: "hmac_lib \<Rightarrow> string \<Rightarrow> exn + SignedData" where
  "signData hm d =
     (case generateHMAC hm d of
        Inl e \<Rightarrow> Inl e
      | Inr sg \<Rightarrow> Inr \<lparr>data = d, signature = sg\<rparr>)"

definition verifySignedData :: "hmac_lib \<Rightarrow> SignedData \<Rightarrow> exn + string" where
  "verifySignedData hm signedData =
     (if \<not> verifyHMAC hm (data signedData) (signature signedData)
      then Inl (HMACError ''HMAC signature verification failed - data may have been tampered with'')
      else Inr (data signedData))"

definition encodeSignedData :: "SignedData \<Rightarrow> string" where
  "encodeSignedData signedData = data signedData @ ''.'' @ signature signedData"

text \<open>\<open>s.lastIndexOf(c)\<close>, with \<open>None\<close> for the result \<open>-1\<close>.\<close>

primrec lastIndexOf :: "string \<Rightarrow> char \<Rightarrow> nat option" where
  "lastIndexOf [] c = None"
| "lastIndexOf (x # xs) c =
     (case lastIndexOf xs c of
        Some i \<Rightarrow> Some (Suc i)
      | None \<Rightarrow> if x = c then Some 0 else None)"

definition decodeSignedData :: "hmac_lib \<Rightarrow> string \<Rightarrow> exn + string" where
  "decodeSignedData hm encoded =
     (case lastIndexOf encoded CHR ''.'' of
        None \<Rightarrow> Inl (HMACError ''Invalid signed data format - missing signature separator'')
      | Some lastDotIndex \<Rightarrow>
          let d = take lastDotIndex encoded;
              sg = drop (lastDotIndex + 1) encoded
          in if d = [] \<or> sg = []
             then Inl (HMACError ''Invalid signed data format - empty data or signature'')
             else verifySignedData hm \<lparr>data = d, signature = sg\<rparr>)"

text \<open>The composition \<open>decodeSignedData(encodeSignedData(signData(d)))\<close>.\<close>

definition decodeEncodeSign :: "hmac_lib \<Rightarrow> string \<Rightarrow> exn + string" where
  "decodeEncodeSign hm d =
     (case signData hm d of
        Inl e \<Rightarrow> Inl e
      | Inr signedData \<Rightarrow> decodeSignedData hm (encodeSignedData signedData))"

section \<open>Encryption of the game state (framework/storage/encryption.ts)\<close>

text \<open>
  \<open>encryptGameState\<close> and \<open>decryptGameState\<close> chain four library calls. The
  libraries are parameters, collected in a record:
  \<^item> \<open>JSON_stringify\<close>, \<open>JSON_parse\<close>: \<open>None\<close> when the call throws (the value
    passed to \<open>JSON.stringify\<close> is a state object, for which the result is a string);
  \<^item> \<open>lz_compress\<close> is \<open>LZString.compressToEncodedURIComponent\<close>, \<open>lz_decompress\<close> is
    \<open>LZString.decompressFromEncodedURIComponent\<close>, whose \<open>null\<close> result is \<open>None\<close>;
  \<^item> \<open>AES_encrypt salt message key\<close> is \<open>CryptoJS.AES.encrypt(message, key).toString()\<close>,
    the random salt the library draws made an argument; \<open>AES_decrypt ct key\<close> is
    \<open>CryptoJS.AES.decrypt(ct, key).toString(CryptoJS.enc.Utf8)\<close>, \<open>None\<close> when it throws;
  \<^item> \<open>btoa\<close>, \<open>atob\<close>: \<open>None\<close> when the call throws.
\<close>

record 'v codec_libs =
  JSON_stringify :: "'v \<Rightarrow> string option"
  JSON_parse :: "string \<Rightarrow> 'v option"
  lz_compress :: "string \<Rightarrow> string"
  lz_decompress :: "string \<Rightarrow> string option"
  AES_encrypt :: "string \<Rightarrow> string \<Rightarrow> string \<Rightarrow> string"
  AES_decrypt :: "string \<Rightarrow> string \<Rightarrow> string option"
  btoa :: "string \<Rightarrow> string option"
  atob :: "string \<Rightarrow> string option"

definition encryptGameState :: "'v codec_libs \<Rightarrow> string \<Rightarrow> 'v \<Rightarrow> exn + string" where
  "encryptGameState L salt gameState =
     (case JSON_stringify L gameState of
        None \<Rightarrow> Inl (Error ''Failed to encrypt game state'')
      | Some json \<Rightarrow>
          let compressed = lz_compress L json;
              encrypted = AES_encrypt L salt compressed GAME_SECRET
          in case btoa L encrypted of
               None \<Rightarrow> Inl (Error ''Failed to encrypt game state'')
             | Some encoded \<Rightarrow> Inr encoded)"

definition decryptGameState :: "'v codec_libs \<Rightarrow> string \<Rightarrow> exn + 'v" where
  "decryptGameState L encoded =
     (case atob L encoded of
        None \<Rightarrow> Inl (Error ''Failed to decrypt game state'')
      | Some encrypted \<Rightarrow>
          (case AES_decrypt L encrypted GAME_SECRET of
             None \<Rightarrow> Inl (Error ''Failed to decrypt game state'')
           | Some decrypted \<Rightarrow>
               if decrypted = [] then Inl (Error ''Failed to decrypt game state'')
               else
                 (case lz_decompress L decrypted of
                    None \<Rightarrow> Inl (Error ''Failed to decrypt game state'')
                  | Some json \<Rightarrow>
                      if json = [] then Inl (Error ''Failed to decrypt game state'')
                      else
                        (case JSON_parse L json of
                           None \<Rightarrow> Inl (Error ''Failed to decrypt game state'')
                         | Some v \<Rightarrow> Inr v))))"

text \<open>
  What the codec needs of its libraries: \<open>JSON.stringify\<close> never returns the
  empty string, decompression undoes compression and a compressed string is
  never empty, decryption with the same key undoes encryption of a compressed
  string whatever the salt, \<open>btoa\<close> accepts a ciphertext, and \<open>atob\<close> undoes
  \<open>btoa\<close>.
\<close>

definition libs_invert :: "'v codec_libs \<Rightarrow> bool" where
  "libs_invert L \<longleftrightarrow>
     (\<forall>v j. JSON_stringify L v = Some j \<longrightarrow> j \<noteq> [])
   \<and> (\<forall>j. lz_compress L j \<noteq> [] \<and> lz_decompress L (lz_compress L j) = Some j)
   \<and> (\<forall>salt j. AES_decrypt L (AES_encrypt L salt (lz_compress L j) GAME_SECRET) GAME_SECRET
                  = Some (lz_compress L j))
   \<and> (\<forall>salt m. \<exists>b. btoa L (AES_encrypt L salt m GAME_SECRET) = Some b)
   \<and> (\<forall>x b. btoa L x = Some b \<longrightarrow> atob L b = Some x)"

text \<open>
  The use the signing module documents for a URL parameter
  (\<open>const encrypted = decodeSignedData(urlParam); const gameState = decryptGameState(encrypted)\<close>):
  an exception of the first call leaves the second uncalled. The second
  component of the result counts the calls of \<open>decryptGameState\<close>.
\<close>

definition loadSignedState ::
  "hmac_lib \<Rightarrow> 'v codec_libs \<Rightarrow> string \<Rightarrow> (exn + 'v) \<times> nat" where
  "loadSignedState hm L urlParam =
     (case decodeSignedData hm urlParam of
        Inl e \<Rightarrow> (Inl e, 0)
      | Inr encrypted \<Rightarrow> (decryptGameState L encrypted, 1))"

section \<open>Config loader (framework/core/config/loader.ts)\<close>

subsection \<open>Template literals and regular expressions\<close>

text \<open>
  A number inside a template literal or a joined path is printed in
  decimal. The double quote and the multiplication sign of the messages are
  written by their codes.
\<close>

definition digitChar :: "nat \<Rightarrow> char" where
  "digitChar n = ''0123456789'' ! (n mod 10)"

function showNat :: "nat \<Rightarrow> string" where
  "showNat n = (if n < 10 then [digitChar n] else showNat (n div 10) @ [digitChar n])"
  by pat_completeness auto
termination
  by (relation "measure (\<lambda>n. n)") auto

declare showNat.simps [simp del]

definition dquote :: char where
  "dquote = CHR 0x22"

definition timesSign :: char where
  "timesSign = CHR 0xD7"

definition isDigit :: "char \<Rightarrow> bool" where
  "isDigit c = (c \<in> set ''0123456789'')"

definition isHexDigit :: "char \<Rightarrow> bool" where
  "isHexDigit c = (c \<in> set ''0123456789ABCDEFabcdef'')"

fun splitOn :: "char \<Rightarrow> string \<Rightarrow> string list" where
  "splitOn c [] = [[]]"
| "splitOn c (x # xs) =
     (if x = c then [] # splitOn c xs
      else (case splitOn c xs of
              [] \<Rightarrow> [[x]]
            | part # parts \<Rightarrow> (x # part) # parts))"

text \<open>The pattern \<open>/^\d+\.\d+\.\d+$/\<close>: three non-empty runs of digits between two dots.\<close>

definition matchesSemver :: "string \<Rightarrow> bool" where
  "matchesSemver v =
     (case splitOn CHR ''.'' v of
        [a, b, c] \<Rightarrow> list_all (\<lambda>part. part \<noteq> [] \<and> list_all isDigit part) [a, b, c]
      | _ \<Rightarrow> False)"

text \<open>The pattern \<open>/^#[0-9A-Fa-f]{6}$/\<close>.\<close>

definition matchesHexColor :: "string \<Rightarrow> bool" where
  "matchesHexColor v =
     (case v of
        [] \<Rightarrow> False
      | x # rest \<Rightarrow> x = CHR ''#'' \<and> length rest = 6 \<and> list_all isHexDigit rest)"

subsection \<open>The Zod schemas\<close>

text \<open>
  The document handed to \<open>GameConfigSchema.parse\<close> is modelled as a value of the
  shape of \<open>GameConfig\<close>: every field is present with a value of its JavaScript
  type, and the schema's remaining checks (lengths, patterns, bounds, literals)
  decide. A schema is the function from a path and a value to the issues Zod
  reports, in the order Zod visits the fields; \<open>parse\<close> throws a \<open>ZodError\<close> with
  these issues when there is one and returns the value otherwise. An issue
  carries its path and its message; messages the source does not give are
  Zod's defaults. \<open>z.string().url()\<close> asks the platform's URL parser, the
  parameter \<open>isUrl\<close>.
\<close>

datatype pathElem = Key string | Index nat

record ZodIssue =
  issue_path :: "pathElem list"
  issue_message :: string

definition stringMin1 :: "string \<Rightarrow> pathElem list \<Rightarrow> string \<Rightarrow> ZodIssue list" where
  "stringMin1 msg p v =
     (if length v < 1 then [\<lparr>issue_path = p, issue_message = msg\<rparr>] else [])"

definition defaultMinMessage :: string where
  "defaultMinMessage = ''String must contain at least 1 character(s)''"

definition optionalSchema ::
  "(pathElem list \<Rightarrow> 'a \<Rightarrow> ZodIssue list) \<Rightarrow> pathElem list \<Rightarrow> 'a option \<Rightarrow> ZodIssue list" where
  "optionalSchema schema p v = (case v of None \<Rightarrow> [] | Some x \<Rightarrow> schema p x)"

definition arrayMin ::
  "nat \<Rightarrow> string \<Rightarrow> (pathElem list \<Rightarrow> 'a \<Rightarrow> ZodIssue list) \<Rightarrow> pathElem list \<Rightarrow> 'a list
     \<Rightarrow> ZodIssue list" where
  "arrayMin n msg schema p xs =
     (if length xs < n then [\<lparr>issue_path = p, issue_message = msg\<rparr>] else [])
     @ concat (map (\<lambda>(i, x). schema (p @ [Index i]) x) (zip [0..<length xs] xs))"

definition ChoiceOptionSchema :: "pathElem list \<Rightarrow> ChoiceOption \<Rightarrow> ZodIssue list" where
  "ChoiceOptionSchema p c =
     stringMin1 ''Choice ID cannot be empty'' (p @ [Key ''id'']) (choice_id c)
     @ stringMin1 ''Choice label cannot be empty'' (p @ [Key ''label'']) (choice_label c)"

definition PayoffRuleSchema :: "pathElem list \<Rightarrow> PayoffRule \<Rightarrow> ZodIssue list" where
  "PayoffRuleSchema p rule =
     stringMin1 defaultMinMessage (p @ [Key ''condition'', Key ''player1''])
       (cond_player1 (condition rule))
     @ stringMin1 defaultMinMessage (p @ [Key ''condition'', Key ''player2''])
         (cond_player2 (condition rule))"

definition GameMetadataSchema ::
  "(string \<Rightarrow> bool) \<Rightarrow> pathElem list \<Rightarrow> GameMetadata \<Rightarrow> ZodIssue list" where
  "GameMetadataSchema isUrl p m =
     stringMin1 ''Game ID cannot be empty'' (p @ [Key ''id'']) (meta_id m)
     @ stringMin1 ''Game name cannot be empty'' (p @ [Key ''name'']) (meta_name m)
     @ stringMin1 ''Game description cannot be empty'' (p @ [Key ''description''])
         (meta_description m)
     @ (if matchesSemver (version m) then []
        else [\<lparr>issue_path = p @ [Key ''version''],
               issue_message = ''Version must be semver format (e.g., 1.0.0)''\<rparr>])
     @ optionalSchema
         (\<lambda>q u. if isUrl u then [] else [\<lparr>issue_path = q, issue_message = ''Invalid url''\<rparr>])
         (p @ [Key ''rulesUrl'']) (rulesUrl m)"

definition GameProgressionSchema :: "pathElem list \<Rightarrow> GameProgression \<Rightarrow> ZodIssue list" where
  "GameProgressionSchema p g =
     (if totalRounds g < 1
      then [\<lparr>issue_path = p @ [Key ''totalRounds''],
             issue_message = ''Must have at least 1 round''\<rparr>]
      else [])
     @ (if startingPlayer g = 1 \<or> startingPlayer g = 2 then []
        else [\<lparr>issue_path = p @ [Key ''startingPlayer''], issue_message = ''Invalid input''\<rparr>])"

definition hexColorSchema :: "pathElem list \<Rightarrow> string \<Rightarrow> ZodIssue list" where
  "hexColorSchema p v =
     (if matchesHexColor v then [] else [\<lparr>issue_path = p, issue_message = ''Invalid''\<rparr>])"

definition GameUISchema :: "pathElem list \<Rightarrow> GameUI \<Rightarrow> ZodIssue list" where
  "GameUISchema p u =
     optionalSchema hexColorSchema (p @ [Key ''primaryColor'']) (primaryColor u)
     @ optionalSchema hexColorSchema (p @ [Key ''secondaryColor'']) (secondaryColor u)"

definition GameConfigSchema :: "(string \<Rightarrow> bool) \<Rightarrow> GameConfig \<Rightarrow> ZodIssue list" where
  "GameConfigSchema isUrl doc =
     GameMetadataSchema isUrl [Key ''metadata''] (metadata doc)
     @ arrayMin 2 ''Must have at least 2 choices'' ChoiceOptionSchema [Key ''choices'']
         (choices doc)
     @ arrayMin 1 ''Must have at least 1 payoff rule'' PayoffRuleSchema [Key ''payoffRules'']
         (payoffRules doc)
     @ GameProgressionSchema [Key ''progression''] (progression doc)
     @ GameUISchema [Key ''ui''] (ui doc)"

definition GameConfigSchema_parse ::
  "(string \<Rightarrow> bool) \<Rightarrow> GameConfig \<Rightarrow> ZodIssue list + GameConfig" where
  "GameConfigSchema_parse isUrl yamlData =
     (case GameConfigSchema isUrl yamlData of
        [] \<Rightarrow> Inr yamlData
      | issue # issues \<Rightarrow> Inl (issue # issues))"

subsection \<open>Semantic validation\<close>

definition unknownChoiceMessage :: "string \<Rightarrow> string" where
  "unknownChoiceMessage i =
     ''Payoff rule references unknown choice ID: '' @ [dquote] @ i @ [dquote]"

text \<open>First loop of \<open>validateGameConfigSemantics\<close>: the ids of every rule.\<close>

definition unknownChoiceErrors :: "GameConfig \<Rightarrow> string list" where
  "unknownChoiceErrors config =
     (let choiceIds = set (map choice_id (choices config)) in
      concat (map (\<lambda>rule.
          (if cond_player1 (condition rule) \<notin> choiceIds
           then [unknownChoiceMessage (cond_player1 (condition rule))] else [])
          @ (if cond_player2 (condition rule) \<notin> choiceIds
             then [unknownChoiceMessage (cond_player2 (condition rule))] else []))
        (payoffRules config)))"

definition ruleKey :: "PayoffRule \<Rightarrow> string" where
  "ruleKey rule = cond_player1 (condition rule) @ '':'' @ cond_player2 (condition rule)"

text \<open>Second loop: the set \<open>seenCombinations\<close> is threaded through the rules.\<close>

fun duplicateLoop :: "PayoffRule list \<Rightarrow> string set \<Rightarrow> string list" where
  "duplicateLoop [] seenCombinations = []"
| "duplicateLoop (rule # rest) seenCombinations =
     (if ruleKey rule \<in> seenCombinations
      then [''Duplicate payoff rule for combination: '' @ ruleKey rule] else [])
     @ duplicateLoop rest (insert (ruleKey rule) seenCombinations)"

definition duplicateRuleErrors :: "GameConfig \<Rightarrow> string list" where
  "duplicateRuleErrors config = duplicateLoop (payoffRules config) {}"

definition coverageMessage :: "nat \<Rightarrow> nat \<Rightarrow> nat \<Rightarrow> string" where
  "coverageMessage expectedCombinations n found =
     ''Expected '' @ showNat expectedCombinations @ '' payoff rules ('' @ showNat n @ '' ''
     @ [timesSign] @ '' '' @ showNat n @ ''), '' @ ''but found '' @ showNat found
     @ ''. Every choice combination must have a payoff rule.''"

definition coverageErrors :: "GameConfig \<Rightarrow> string list" where
  "coverageErrors config =
     (let expectedCombinations = length (choices config) * length (choices config) in
      if length (payoffRules config) \<noteq> expectedCombinations
      then [coverageMessage expectedCombinations (length (choices config))
              (length (payoffRules config))]
      else [])"

definition validateGameConfigSemantics :: "GameConfig \<Rightarrow> exn + unit" where
  "validateGameConfigSemantics config =
     (let errors = unknownChoiceErrors config @ duplicateRuleErrors config
                   @ coverageErrors config
      in if length errors > 0
         then Inl (ConfigValidationError ''Game config semantic validation failed'' errors None)
         else Inr ())"

subsection \<open>\<open>loadGameConfig\<close>\<close>

fun joinWith :: "string \<Rightarrow> string list \<Rightarrow> string" where
  "joinWith sep [] = []"
| "joinWith sep [x] = x"
| "joinWith sep (x # y # ys) = x @ sep @ joinWith sep (y # ys)"

fun pathElemString :: "pathElem \<Rightarrow> string" where
  "pathElemString (Key k) = k"
| "pathElemString (Index i) = showNat i"

definition formatIssue :: "ZodIssue \<Rightarrow> string" where
  "formatIssue e =
     joinWith ''.'' (map pathElemString (issue_path e)) @ '': '' @ issue_message e"

text \<open>\<open>configPath || 'unknown'\<close>.\<close>

definition orUnknown :: "string option \<Rightarrow> string" where
  "orUnknown configPath =
     (case configPath of
        None \<Rightarrow> ''unknown''
      | Some path \<Rightarrow> if path = [] then ''unknown'' else path)"

definition loadGameConfig ::
  "(string \<Rightarrow> bool) \<Rightarrow> GameConfig \<Rightarrow> string option \<Rightarrow> exn + GameConfig" where
  "loadGameConfig isUrl yamlData configPath =
     (case GameConfigSchema_parse isUrl yamlData of
        Inl issues \<Rightarrow>
          Inl (ConfigValidationError (''Config validation failed: '' @ orUnknown configPath)
                 (map formatIssue issues) configPath)
      | Inr config \<Rightarrow>
          (case validateGameConfigSemantics config of
             Inr _ \<Rightarrow> Inr config
           | Inl (ConfigValidationError m errors path) \<Rightarrow>
               Inl (ConfigValidationError m errors path)
           | Inl _ \<Rightarrow> Inl (ConfigLoadError (''Failed to load config: '' @ orUnknown configPath))))"

text \<open>The rules of a configuration without the entry at index \<open>i\<close>.\<close>

definition removeAt :: "nat \<Rightarrow> 'a list \<Rightarrow> 'a list" where
  "removeAt i xs = take i xs @ drop (Suc i) xs"

section \<open>Payoff engine (framework/core/engine/payoffEngine)\<close>

record PayoffResult =
  player1Score :: number
  player2Score :: number
  result_outcomeText :: "string option"
  matchedRule :: PayoffRule

definition calculatePayoff :: "GameConfig \<Rightarrow> string \<Rightarrow> string \<Rightarrow> exn + PayoffResult" where
  "calculatePayoff config p1 p2 =
     (let validChoiceIds = set (map choice_id (choices config)) in
      if p1 \<notin> validChoiceIds
      then Inl (PayoffCalculationError
                  (''Invalid choice for player 1: '' @ [dquote] @ p1 @ [dquote]) p1 p2)
      else if p2 \<notin> validChoiceIds
      then Inl (PayoffCalculationError
                  (''Invalid choice for player 2: '' @ [dquote] @ p2 @ [dquote]) p1 p2)
      else
        (case find (\<lambda>rule. cond_player1 (condition rule) = p1
                          \<and> cond_player2 (condition rule) = p2) (payoffRules config) of
           None \<Rightarrow>
             Inl (PayoffCalculationError
                    (''No payoff rule found for combination: player1='' @ [dquote] @ p1
                     @ [dquote] @ '', player2='' @ [dquote] @ p2 @ [dquote]) p1 p2)
         | Some rule \<Rightarrow>
             Inr \<lparr>player1Score = out_player1 (outcome rule),
                  player2Score = out_player2 (outcome rule),
                  result_outcomeText = outcomeText rule,
                  matchedRule = rule\<rparr>))"

section \<open>Game-state schema (framework/core/schemas/schemaGenerator)\<close>

text \<open>
  The object the generated schema validates, with the prefix \<open>st_\<close> on its
  fields (\<open>rh_\<close> on those of a round of the history, \<open>pc_\<close> on those of the
  pending choice). A generated schema is modelled by the predicate "\<open>safeParse\<close>
  succeeds" on values of this shape. The UUID and datetime formats are checked
  by Zod; they are the parameters \<open>isUuid\<close> and \<open>isDatetime\<close>.
\<close>

record RoundEntry =
  rh_player1Choice :: string
  rh_player2Choice :: string
  rh_player1Score :: number
  rh_player2Score :: number
  rh_outcomeText :: "string option"

record PendingChoice =
  pc_playerId :: string
  pc_choice :: string

record SchemaGameState =
  st_gameId :: string
  st_gameType :: string
  st_gameVersion :: string
  st_player1Id :: string
  st_player2Id :: "string option"
  st_player1Name :: string
  st_player2Name :: "string option"
  st_currentRound :: number
  st_totalRounds :: number
  st_roundHistory :: "RoundEntry list"
  st_currentStarter :: number
  st_pendingChoice :: "PendingChoice option"
  st_player1Total :: number
  st_player2Total :: number
  st_createdAt :: string
  st_updatedAt :: string

record formats =
  isUuid :: "string \<Rightarrow> bool"
  isDatetime :: "string \<Rightarrow> bool"

definition generateChoiceIdSchema :: "GameConfig \<Rightarrow> exn + (string \<Rightarrow> bool)" where
  "generateChoiceIdSchema config =
     (let choiceIds = map choice_id (choices config) in
      if length choiceIds < 1 then Inl (Error ''Config must have at least 1 choice'')
      else Inr (\<lambda>v. v \<in> set choiceIds))"

definition generateRoundSchema :: "GameConfig \<Rightarrow> exn + (RoundEntry \<Rightarrow> bool)" where
  "generateRoundSchema config =
     (case generateChoiceIdSchema config of
        Inl e \<Rightarrow> Inl e
      | Inr choiceSchema \<Rightarrow>
          Inr (\<lambda>r. choiceSchema (rh_player1Choice r) \<and> choiceSchema (rh_player2Choice r)))"

definition generateRoundHistorySchema :: "GameConfig \<Rightarrow> exn + (RoundEntry list \<Rightarrow> bool)" where
  "generateRoundHistorySchema config =
     (case generateRoundSchema config of
        Inl e \<Rightarrow> Inl e
      | Inr roundSchema \<Rightarrow> Inr (list_all roundSchema))"

definition generateGameStateSchema ::
  "formats \<Rightarrow> GameConfig \<Rightarrow> exn + (SchemaGameState \<Rightarrow> bool)" where
  "generateGameStateSchema F config =
     (case generateChoiceIdSchema config of
        Inl e \<Rightarrow> Inl e
      | Inr choiceSchema \<Rightarrow>
          (case generateRoundHistorySchema config of
             Inl e \<Rightarrow> Inl e
           | Inr roundHistorySchema \<Rightarrow>
               Inr (\<lambda>s.
                   isUuid F (st_gameId s)
                 \<and> st_gameType s = meta_id (metadata config)
                 \<and> st_gameVersion s = version (metadata config)
                 \<and> isUuid F (st_player1Id s)
                 \<and> (case st_player2Id s of None \<Rightarrow> True | Some i \<Rightarrow> isUuid F i)
                 \<and> 1 \<le> length (st_player1Name s)
                 \<and> 1 \<le> st_currentRound s
                 \<and> st_currentRound s \<le> totalRounds (progression config)
                 \<and> st_totalRounds s = totalRounds (progression config)
                 \<and> roundHistorySchema (st_roundHistory s)
                 \<and> (st_currentStarter s = 1 \<or> st_currentStarter s = 2)
                 \<and> (case st_pendingChoice s of
                       None \<Rightarrow> True
                     | Some pc \<Rightarrow> isUuid F (pc_playerId pc) \<and> choiceSchema (pc_choice pc))
                 \<and> isDatetime F (st_createdAt s)
                 \<and> isDatetime F (st_updatedAt s))))"

text \<open>\<open>generateGameStateSchema(config).safeParse(s).success\<close>.\<close>

definition safeParseSuccess :: "formats \<Rightarrow> GameConfig \<Rightarrow> SchemaGameState \<Rightarrow> bool" where
  "safeParseSuccess F config s =
     (case generateGameStateSchema F config of
        Inl _ \<Rightarrow> False
      | Inr schema \<Rightarrow> schema s)"

section \<open>JavaScript number addition\<close>

text \<open>
  The totals are computed by \<open>+=\<close> on JavaScript numbers, which are IEEE 754
  doubles. A \<open>jsnum\<close> is a double whose value is an integer (\<open>Fin n\<close>), an
  infinity, or \<open>NaN\<close>: the scores of a configuration are integers, and every
  sum of such doubles is again of this kind. The sum of two finite doubles
  is their exact sum rounded to the nearest double, that is to 53
  significant bits, a tie going to the even significand, and to an infinity
  once the rounded magnitude reaches \<open>2 ^ 1024\<close>.
\<close>

datatype jsnum = Fin int | PosInf | NegInf | NaN

function bitLength :: "int \<Rightarrow> nat" where
  "bitLength n = (if n \<le> 0 then 0 else Suc (bitLength (n div 2)))"
  by pat_completeness auto
termination
  by (relation "measure (\<lambda>n. nat n)") auto

declare bitLength.simps [simp del]

definition roundToDouble :: "int \<Rightarrow> jsnum" where
  "roundToDouble x =
     (let m = \<bar>x\<bar> in
      if m < 2 ^ 53 then Fin x
      else
        let ulp = 2 ^ (bitLength m - 53);
            q = m div ulp;
            r = m mod ulp;
            rounded = (if ulp < 2 * r \<or> (2 * r = ulp \<and> odd q) then q + 1 else q) * ulp
        in if 2 ^ 1024 \<le> rounded then (if x < 0 then NegInf else PosInf)
           else Fin (if x < 0 then - rounded else rounded))"

fun jsAdd :: "jsnum \<Rightarrow> jsnum \<Rightarrow> jsnum" where
  "jsAdd NaN b = NaN"
| "jsAdd a NaN = NaN"
| "jsAdd PosInf NegInf = NaN"
| "jsAdd NegInf PosInf = NaN"
| "jsAdd PosInf b = PosInf"
| "jsAdd a PosInf = PosInf"
| "jsAdd NegInf b = NegInf"
| "jsAdd a NegInf = NegInf"
| "jsAdd (Fin a) (Fin b) = roundToDouble (a + b)"

definition isFinite :: "jsnum \<Rightarrow> bool" where
  "isFinite n = (case n of Fin i \<Rightarrow> True | _ \<Rightarrow> False)"

section \<open>The application's state transitions (App)\<close>

record Round =
  round_player1Choice :: string
  round_player2Choice :: string
  round_player1Score :: number
  round_player2Score :: number

record GameState =
  gameId :: string
  currentRound :: number
  player1Choice :: "string option"
  player2Choice :: "string option"
  player1Total :: jsnum
  player2Total :: jsnum
  rounds :: "Round list"

text \<open>
  \<open>startNewGame\<close>, for a loaded configuration; the fresh id that
  \<open>createGameId()\<close> draws is the argument.
\<close>

definition startNewGame :: "string \<Rightarrow> GameState" where
  "startNewGame newId =
     \<lparr>gameId = newId, currentRound = 1, player1Choice = None, player2Choice = None,
      player1Total = Fin 0, player2Total = Fin 0, rounds = []\<rparr>"

text \<open>
  \<open>makeChoice\<close>, for a loaded configuration and a present game state. The
  result is the state handed to \<open>setGameState\<close>, or the exception of
  \<open>calculatePayoff\<close>, which is thrown before the history is touched.
  \<open>newState\<close> is a shallow copy, so \<open>rounds.push\<close> also extends the array of the
  previous state object; the component replaces that object by \<open>newState\<close> and
  never reads it again, so the transition is modelled on the new state alone.
  The two \<open>+=\<close> are additions of doubles.
\<close>

definition makeChoice :: "GameConfig \<Rightarrow> GameState \<Rightarrow> number \<Rightarrow> string \<Rightarrow> exn + GameState" where
  "makeChoice config gameState playerNum choiceId =
     (let newState = (if playerNum = 1 then gameState\<lparr>player1Choice := Some choiceId\<rparr>
                      else gameState\<lparr>player2Choice := Some choiceId\<rparr>)
      in case (player1Choice newState, player2Choice newState) of
           (Some c1, Some c2) \<Rightarrow>
             if c1 \<noteq> [] \<and> c2 \<noteq> [] then
               (case calculatePayoff config c1 c2 of
                  Inl e \<Rightarrow> Inl e
                | Inr payoff \<Rightarrow>
                    let scored = newState
                          \<lparr>rounds := rounds newState @
                              [\<lparr>round_player1Choice = c1, round_player2Choice = c2,
                                round_player1Score = player1Score payoff,
                                round_player2Score = player2Score payoff\<rparr>],
                           player1Total := jsAdd (player1Total newState) (Fin (player1Score payoff)),
                           player2Total := jsAdd (player2Total newState) (Fin (player2Score payoff))\<rparr>
                    in if currentRound scored < totalRounds (progression config)
                       then Inr (scored\<lparr>currentRound := currentRound scored + 1,
                                        player1Choice := None, player2Choice := None\<rparr>)
                       else Inr scored)
             else Inr newState
         | _ \<Rightarrow> Inr newState)"

text \<open>
  The component's state after a call of the handler: an exception leaves
  the state as it was. \<open>playChoices\<close> runs a sequence of calls.
\<close>

definition afterChoice :: "GameConfig \<Rightarrow> GameState \<Rightarrow> number \<times> string \<Rightarrow> GameState" where
  "afterChoice config gameState action =
     (case makeChoice config gameState (fst action) (snd action) of
        Inl _ \<Rightarrow> gameState
      | Inr newState \<Rightarrow> newState)"

definition playChoices :: "GameConfig \<Rightarrow> GameState \<Rightarrow> (number \<times> string) list \<Rightarrow> GameState" where
  "playChoices config gameState actions = foldl (afterChoice config) gameState actions"

text \<open>
  The sum of a list of scores as the code forms it: from \<open>0\<close>, one \<open>+=\<close> per
  score, in the order of the history. The invariant of the running totals
  says that each total is this sum of the corresponding scores.
\<close>

definition jsSum :: "number list \<Rightarrow> jsnum" where
  "jsSum scores = foldl (\<lambda>total score. jsAdd total (Fin score)) (Fin 0) scores"

definition totalsMatchHistory :: "GameState \<Rightarrow> bool" where
  "totalsMatchHistory s \<longleftrightarrow>
     player1Total s = jsSum (map round_player1Score (rounds s))
   \<and> player2Total s = jsSum (map round_player2Score (rounds s))"

text \<open>
  Every partial sum of the scores, taken from the start of the list, is a
  safe integer: its magnitude is below \<open>2 ^ 53\<close>.
\<close>

definition safePartialSums :: "number list \<Rightarrow> bool" where
  "safePartialSums scores =
     list_all (\<lambda>k. \<bar>sum_list (take k scores)\<bar> < 2 ^ 53) [0..<Suc (length scores)]"

section \<open>The snapshot as a JavaScript value (JSON.stringify, JSON.parse)\<close>

text \<open>
  \<open>encryptGameState\<close> is handed the state object. A JavaScript value of plain
  data is a \<open>jsvalue\<close>; an object is the list of its properties in order.
\<close>

datatype jsvalue =
    JUndefined
  | JNull
  | JBool bool
  | JNumber jsnum
  | JString string
  | JArray "jsvalue list"
  | JObject "(string \<times> jsvalue) list"

text \<open>
  What \<open>JSON.parse(JSON.stringify(v))\<close> is for a value of plain data, by the
  language's definition of the two functions: \<open>None\<close> when \<open>JSON.stringify\<close>
  returns \<open>undefined\<close>. A number that is not finite is written \<open>null\<close>; a
  property whose value is \<open>undefined\<close> is left out; an \<open>undefined\<close> element of an
  array is written \<open>null\<close>; strings, finite numbers, the order of an array and
  the order of the properties are kept.
\<close>

primrec jsonValue :: "jsvalue \<Rightarrow> jsvalue option" where
  "jsonValue JUndefined = None"
| "jsonValue JNull = Some JNull"
| "jsonValue (JBool b) = Some (JBool b)"
| "jsonValue (JNumber n) = Some (if isFinite n then JNumber n else JNull)"
| "jsonValue (JString s) = Some (JString s)"
| "jsonValue (JArray vs) =
     Some (JArray (map (\<lambda>w. case w of None \<Rightarrow> JNull | Some x \<Rightarrow> x) (map jsonValue vs)))"
| "jsonValue (JObject ps) =
     Some (JObject (concat (map (\<lambda>(k, w). case w of None \<Rightarrow> [] | Some x \<Rightarrow> [(k, x)])
                              (map (map_prod id jsonValue) ps))))"

text \<open>
  The state object of the application as a value. An unset choice is an
  absent property (after \<open>startNewGame\<close>) or a property holding \<open>undefined\<close>
  (after \<open>makeChoice\<close> has reset it); reading either gives \<open>undefined\<close>, and
  \<open>JSON.stringify\<close> writes neither. The model takes the second.
\<close>

definition roundJS :: "Round \<Rightarrow> jsvalue" where
  "roundJS r =
     JObject [(''player1Choice'', JString (round_player1Choice r)),
              (''player2Choice'', JString (round_player2Choice r)),
              (''player1Score'', JNumber (Fin (round_player1Score r))),
              (''player2Score'', JNumber (Fin (round_player2Score r)))]"

definition choiceJS :: "string option \<Rightarrow> jsvalue" where
  "choiceJS c = (case c of None \<Rightarrow> JUndefined | Some i \<Rightarrow> JString i)"

definition toJS :: "GameState \<Rightarrow> jsvalue" where
  "toJS s =
     JObject [(''gameId'', JString (gameId s)),
              (''currentRound'', JNumber (Fin (currentRound s))),
              (''player1Choice'', choiceJS (player1Choice s)),
              (''player2Choice'', choiceJS (player2Choice s)),
              (''player1Total'', JNumber (player1Total s)),
              (''player2Total'', JNumber (player2Total s)),
              (''rounds'', JArray (map roundJS (rounds s)))]"

text \<open>
  Reading a value as a \<open>GameState\<close>: \<open>getProp v k\<close> is the property access \<open>v.k\<close>, and
  \<open>asGameState\<close> is the state whose fields are the properties of the value,
  when each has the type the interface declares.
\<close>

definition getProp :: "jsvalue \<Rightarrow> string \<Rightarrow> jsvalue" where
  "getProp v k =
     (case v of
        JObject ps \<Rightarrow> (case map_of ps k of None \<Rightarrow> JUndefined | Some x \<Rightarrow> x)
      | _ \<Rightarrow> JUndefined)"

definition asString :: "jsvalue \<Rightarrow> string option" where
  "asString v = (case v of JString s \<Rightarrow> Some s | _ \<Rightarrow> None)"

definition asNumber :: "jsvalue \<Rightarrow> jsnum option" where
  "asNumber v = (case v of JNumber n \<Rightarrow> Some n | _ \<Rightarrow> None)"

definition asInteger :: "jsvalue \<Rightarrow> number option" where
  "asInteger v = (case v of JNumber (Fin i) \<Rightarrow> Some i | _ \<Rightarrow> None)"

definition asChoice :: "jsvalue \<Rightarrow> string option option" where
  "asChoice v = (case v of JUndefined \<Rightarrow> Some None | JString c \<Rightarrow> Some (Some c) | _ \<Rightarrow> None)"

definition asRound :: "jsvalue \<Rightarrow> Round option" where
  "asRound v =
     (case (asString (getProp v ''player1Choice''), asString (getProp v ''player2Choice''),
            asInteger (getProp v ''player1Score''), asInteger (getProp v ''player2Score'')) of
        (Some c1, Some c2, Some x1, Some x2) \<Rightarrow>
          Some \<lparr>round_player1Choice = c1, round_player2Choice = c2,
                round_player1Score = x1, round_player2Score = x2\<rparr>
      | _ \<Rightarrow> None)"

definition asRounds :: "jsvalue \<Rightarrow> Round list option" where
  "asRounds v = (case v of JArray vs \<Rightarrow> those (map asRound vs) | _ \<Rightarrow> None)"

definition asGameState :: "jsvalue \<Rightarrow> GameState option" where
  "asGameState v =
     (case (asString (getProp v ''gameId''), asInteger (getProp v ''currentRound''),
            asChoice (getProp v ''player1Choice''), asChoice (getProp v ''player2Choice''),
            asNumber (getProp v ''player1Total''), asNumber (getProp v ''player2Total''),
            asRounds (getProp v ''rounds'')) of
        (Some g, Some n, Some c1, Some c2, Some t1, Some t2, Some rs) \<Rightarrow>
          Some \<lparr>gameId = g, currentRound = n, player1Choice = c1, player2Choice = c2,
                player1Total = t1, player2Total = t2, rounds = rs\<rparr>
      | _ \<Rightarrow> None)"

text \<open>The composition \<open>decryptGameState(encryptGameState(v))\<close>.\<close>

definition decryptOfEncrypt :: "'v codec_libs \<Rightarrow> string \<Rightarrow> 'v \<Rightarrow> exn + 'v" where
  "decryptOfEncrypt L salt v =
     (case encryptGameState L salt v of
        Inl e \<Rightarrow> Inl e
      | Inr token \<Rightarrow> decryptGameState L token)"

section \<open>Sample inputs\<close>

text \<open>
  Stand-ins for the libraries, used only to evaluate the definitions on
  concrete inputs: a digest of 64 hex digits that depends on the data, and a
  codec whose stages undo each other.
\<close>

definition hexDigit :: "nat \<Rightarrow> char" where
  "hexDigit n = ''0123456789abcdef'' ! (n mod 16)"

definition sampleDigest :: hmac_lib where
  "sampleDigest d key =
     Some (replicate 64 (hexDigit (sum_list (map of_char d) + length key)))"

definition sampleLibs :: "string codec_libs" where
  "sampleLibs =
     \<lparr>JSON_stringify = (\<lambda>v. Some (''['' @ v @ '']'')),
      JSON_parse = (\<lambda>j. if 2 \<le> length j \<and> hd j = CHR ''['' \<and> last j = CHR '']''
                         then Some (butlast (tl j)) else None),
      lz_compress = (\<lambda>j. CHR ''N'' # j),
      lz_decompress = (\<lambda>c. case c of [] \<Rightarrow> None | x # r \<Rightarrow> if x = CHR ''N'' then Some r else None),
      AES_encrypt = (\<lambda>salt m key. (if salt = [] then CHR ''-'' else hd salt) # rev m),
      AES_decrypt = (\<lambda>c key. case c of [] \<Rightarrow> None | x # r \<Rightarrow> Some (rev r)),
      btoa = Some,
      atob = Some\<rparr>"

text \<open>
  A two-choice game used to evaluate the definitions on concrete inputs:
  three rounds, player 2 starts, the starter alternates.
\<close>

definition mkChoice :: "string \<Rightarrow> ChoiceOption" where
  "mkChoice i = \<lparr>choice_id = i, choice_label = i, choice_description = None, choice_icon = None\<rparr>"

definition mkRule :: "string \<Rightarrow> string \<Rightarrow> number \<Rightarrow> number \<Rightarrow> PayoffRule" where
  "mkRule a b x y =
     \<lparr>condition = \<lparr>cond_player1 = a, cond_player2 = b\<rparr>,
      outcome = \<lparr>out_player1 = x, out_player2 = y\<rparr>,
      outcomeText = None\<rparr>"

definition sampleConfig :: GameConfig where
  "sampleConfig =
     \<lparr>metadata = \<lparr>meta_id = ''hawk-dove'', meta_name = ''Hawk Dove'',
                   meta_description = ''Two choices'', version = ''1.0.0'',
                   rulesUrl = None, tags = None\<rparr>,
      choices = [mkChoice ''hawk'', mkChoice ''dove''],
      payoffRules = [mkRule ''hawk'' ''hawk'' (-1) (-1), mkRule ''hawk'' ''dove'' 3 0,
                     mkRule ''dove'' ''hawk'' 0 3, mkRule ''dove'' ''dove'' 2 2],
      progression = \<lparr>totalRounds = 3, startingPlayer = 2, alternateStarter = True,
                      showRunningTotal = True\<rparr>,
      ui = \<lparr>primaryColor = None, secondaryColor = None, cssClass = None,
             showPayoffMatrix = True, showChoiceDescriptions = False,
             choiceMadeText = None, resultsHeaderText = None\<rparr>\<rparr>"

text \<open>
  \<open>s.startsWith(sub)\<close> and \<open>s.includes(sub)\<close>, to say that a message names an id.
\<close>

fun startsWith :: "string \<Rightarrow> string \<Rightarrow> bool" where
  "startsWith s [] = True"
| "startsWith [] (c # cs) = False"
| "startsWith (x # xs) (c # cs) = (x = c \<and> startsWith xs cs)"

fun strIncludes :: "string \<Rightarrow> string \<Rightarrow> bool" where
  "strIncludes [] sub = (sub = [])"
| "strIncludes (x # xs) sub = (startsWith (x # xs) sub \<or> strIncludes xs sub)"

text \<open>
  Two faulty documents built from the sample: one that passes the schema and
  breaks all three semantic checks, one that breaks the schema
  (\<open>totalRounds = 0\<close>) and the semantic checks (an unknown id, a table of one
  entry) at once.
\<close>

definition semanticFaultsConfig :: GameConfig where
  "semanticFaultsConfig =
     sampleConfig\<lparr>payoffRules := [mkRule ''hawk'' ''lizard'' 1 1, mkRule ''hawk'' ''lizard'' 1 1]\<rparr>"

definition brokenConfig :: GameConfig where
  "brokenConfig =
     sampleConfig\<lparr>payoffRules := [mkRule ''hawk'' ''lizard'' 1 1],
                   progression := (progression sampleConfig)\<lparr>totalRounds := 0\<rparr>\<rparr>"

text \<open>
  Format checks and a decoded state for the sample configuration, in its
  last round.
\<close>

definition sampleFormats :: formats where
  "sampleFormats = \<lparr>isUuid = (\<lambda>v. length v = 36), isDatetime = (\<lambda>v. v \<noteq> [])\<rparr>"

definition sampleSchemaState :: SchemaGameState where
  "sampleSchemaState =
     \<lparr>st_gameId = ''123e4567-e89b-42d3-a456-426614174000'',
      st_gameType = ''hawk-dove'', st_gameVersion = ''1.0.0'',
      st_player1Id = ''123e4567-e89b-42d3-a456-426614174001'',
      st_player2Id = None, st_player1Name = ''Ann'', st_player2Name = None,
      st_currentRound = 3, st_totalRounds = 3,
      st_roundHistory = [], st_currentStarter = 2, st_pendingChoice = None,
      st_player1Total = 0, st_player2Total = 0,
      st_createdAt = ''2024-01-01T00:00:00Z'', st_updatedAt = ''2024-01-01T00:00:00Z''\<rparr>"

text \<open>
  A codec for values whose JSON library is known at one value \<open>v\<close> only:
  \<open>JSON.stringify(v)\<close> is a fixed text, and \<open>JSON.parse\<close> of that text is what the
  language defines; the other stages are those of \<open>sampleLibs\<close>.
\<close>

definition tableLibs :: "jsvalue \<Rightarrow> jsvalue codec_libs" where
  "tableLibs v =
     \<lparr>JSON_stringify = (\<lambda>u. if u = v then Some ''{snapshot}'' else None),
      JSON_parse = (\<lambda>j. if j = ''{snapshot}'' then jsonValue v else None),
      lz_compress = lz_compress sampleLibs,
      lz_decompress = lz_decompress sampleLibs,
      AES_encrypt = AES_encrypt sampleLibs,
      AES_decrypt = AES_decrypt sampleLibs,
      btoa = Some,
      atob = Some\<rparr>"

text \<open>
  A snapshot of the sample game after two rounds, player 2 having chosen in
  the third.
\<close>

definition sampleSnapshot :: GameState where
  "sampleSnapshot =
     playChoices sampleConfig (startNewGame ''game-1'')
       [(2, ''dove''), (1, ''hawk''), (1, ''dove''), (2, ''dove''), (2, ''hawk'')]"

text \<open>
  Two configurations with large scores: in the first, (hawk, hawk) gives
  player 1 the score \<open>2 ^ 53\<close> and (dove, dove) the score 1; in the second,
  (hawk, hawk) gives player 1 the score \<open>2 ^ 1023\<close>.
\<close>

definition precisionConfig :: GameConfig where
  "precisionConfig =
     sampleConfig\<lparr>payoffRules :=
       [mkRule ''hawk'' ''hawk'' 9007199254740992 0, mkRule ''hawk'' ''dove'' 3 0,
        mkRule ''dove'' ''hawk'' 0 3, mkRule ''dove'' ''dove'' 1 0]\<rparr>"

definition overflowConfig :: GameConfig where
  "overflowConfig =
     sampleConfig\<lparr>payoffRules :=
       [mkRule ''hawk'' ''hawk'' (2 ^ 1023) 0, mkRule ''hawk'' ''dove'' 3 0,
        mkRule ''dove'' ''hawk'' 0 3, mkRule ''dove'' ''dove'' 2 2]\<rparr>"

definition overflowSnapshot :: GameState where
  "overflowSnapshot =
     playChoices overflowConfig (startNewGame ''game-2'')
       [(1, ''hawk''), (2, ''hawk''), (1, ''hawk''), (2, ''hawk'')]"

section \<open>Properties of the turn engine\<close>

lemma js_rem_2_pos: "1 \<le> r \<Longrightarrow> js_rem r 2 = r mod 2"
  by (simp add: js_rem_def)

lemma truthy_simps [simp]:
  "truthy None = False" "truthy (Some s) = (s \<noteq> [])"
  by (simp_all add: truthy_def)

text \<open>
  Claim C6. For a 1-indexed round number \<open>r\<close>, \<open>determineRoundStarter\<close> returns
  \<open>startingPlayer\<close> for every round when \<open>alternateStarter\<close> is false; when it is
  true it returns \<open>startingPlayer\<close> on odd rounds and the other player on even
  rounds, so that with \<open>startingPlayer = 1\<close> the rounds 1, 2, 3, 4, ... start with
  1, 2, 1, 2, ...
\<close>

theorem determineRoundStarter_alternation:
  assumes "1 \<le> r"
  shows "(\<not> alternateStarter (progression config) \<longrightarrow>
            determineRoundStarter config r = startingPlayer (progression config))
       \<and> (alternateStarter (progression config) \<and> odd r \<longrightarrow>
            determineRoundStarter config r = startingPlayer (progression config))
       \<and> (alternateStarter (progression config) \<and> even r \<and> startingPlayer (progression config) = 1 \<longrightarrow>
            determineRoundStarter config r = 2)
       \<and> (alternateStarter (progression config) \<and> even r \<and> startingPlayer (progression config) = 2 \<longrightarrow>
            determineRoundStarter config r = 1)
       \<and> (alternateStarter (progression config) \<and> startingPlayer (progression config) = 1 \<longrightarrow>
            determineRoundStarter config r = (if odd r then 1 else 2))"
proof -
  have rem: "js_rem r 2 = r mod 2"
    using assms by (rule js_rem_2_pos)
  have odd_iff: "odd r \<longleftrightarrow> r mod 2 = 1"
    by presburger
  show ?thesis
    unfolding determineRoundStarter_def rem odd_iff by auto
qed

theorem determineRoundStarter_alternation_witness:
  "(1::int) \<le> 2 \<and> alternateStarter (progression sampleConfig) \<and> even (2::int)
   \<and> startingPlayer (progression sampleConfig) = 2
   \<and> determineRoundStarter sampleConfig 2 = 1"
proof -
  have pos: "(1::int) \<le> 2" by simp
  from determineRoundStarter_alternation [OF pos, of sampleConfig]
  show ?thesis by (simp add: sampleConfig_def)
qed

text \<open>
  Claim C5. With "set" read as the engine reads it (a choice is present when it
  is neither \<open>undefined\<close> nor the empty string), \<open>determineNextPlayer\<close> returns the
  round's starter when neither choice is set, the responder when only the
  starter's choice is set, and nothing when both are set. In particular, in a
  round started by player 2 in which only \<open>player2Choice\<close> is set, it returns
  player 1.
\<close>

theorem determineNextPlayer_routing:
  "(\<not> truthy p1 \<and> \<not> truthy p2 \<longrightarrow>
      determineNextPlayer config r p1 p2 = Some (determineRoundStarter config r))
 \<and> (determineRoundStarter config r = 1 \<and> truthy p1 \<and> \<not> truthy p2 \<longrightarrow>
      determineNextPlayer config r p1 p2 = Some 2)
 \<and> (determineRoundStarter config r = 2 \<and> truthy p2 \<and> \<not> truthy p1 \<longrightarrow>
      determineNextPlayer config r p1 p2 = Some 1)
 \<and> (truthy p1 \<and> truthy p2 \<longrightarrow> determineNextPlayer config r p1 p2 = None)
 \<and> (determineRoundStarter config r = 2 \<and> c \<noteq> [] \<longrightarrow>
      determineNextPlayer config r None (Some c) = Some 1)"
  by (simp add: determineNextPlayer_def Let_def)

theorem determineNextPlayer_routing_witness:
  "determineRoundStarter sampleConfig 1 = 2
   \<and> determineNextPlayer sampleConfig 1 None None = Some 2
   \<and> determineNextPlayer sampleConfig 1 None (Some ''dove'') = Some 1
   \<and> determineNextPlayer sampleConfig 1 (Some ''hawk'') (Some ''dove'') = None"
proof -
  have starter: "determineRoundStarter sampleConfig 1 = 2"
    by (simp add: determineRoundStarter_def sampleConfig_def js_rem_def)
  from determineNextPlayer_routing [of None None sampleConfig 1 "''dove''"]
  have a: "determineNextPlayer sampleConfig 1 None None = Some 2"
      and b: "determineNextPlayer sampleConfig 1 None (Some ''dove'') = Some 1"
    using starter by simp_all
  from determineNextPlayer_routing [of "Some ''hawk''" "Some ''dove''" sampleConfig 1 "''dove''"]
  have c: "determineNextPlayer sampleConfig 1 (Some ''hawk'') (Some ''dove'') = None"
    by simp
  from starter a b c show ?thesis by simp
qed

text \<open>
  Claim C10. The two round-completion views disagree on the empty string:
  \<open>determineNextPlayer\<close> returns nothing exactly when both choices are
  non-empty strings, \<open>isRoundComplete\<close> is true exactly when both are defined.
  So for \<open>player1Choice = ""\<close> and a non-empty \<open>player2Choice\<close> the round is
  reported complete while \<open>determineNextPlayer\<close> still returns a player
  (player 1, whoever started the round).
\<close>

theorem round_completion_views_disagree:
  "(determineNextPlayer config r p1 p2 = None \<longleftrightarrow> truthy p1 \<and> truthy p2)
 \<and> (isRoundComplete p1 p2 \<longleftrightarrow> p1 \<noteq> None \<and> p2 \<noteq> None)
 \<and> (c \<noteq> [] \<longrightarrow>
      isRoundComplete (Some []) (Some c)
      \<and> determineNextPlayer config r (Some []) (Some c) = Some 1)"
  by (simp add: determineNextPlayer_def isRoundComplete_def Let_def)

theorem round_completion_views_disagree_witness:
  "isRoundComplete (Some []) (Some ''dove'')
   \<and> determineNextPlayer sampleConfig 2 (Some []) (Some ''dove'') = Some 1
   \<and> determineNextPlayer sampleConfig 2 (Some []) (Some ''dove'') \<noteq> None"
  using round_completion_views_disagree [of sampleConfig 2 "Some []" "Some ''dove''" "''dove''"]
  by simp

section \<open>Properties of the signing module\<close>

text \<open>
  The loop of \<open>verifyHMAC\<close> ends with \<open>result = 0\<close> exactly when the two strings
  agree at every index, so \<open>verifyHMAC\<close> is the test "the signature is the digest
  of the data".
\<close>

lemma fold_or_zero:
  "fold (\<lambda>i (result::32 word). result OR f i) is r0 = 0 \<longleftrightarrow> r0 = 0 \<and> (\<forall>i\<in>set is. f i = 0)"
  by (induction "is" arbitrary: r0) (auto simp: or_eq_0_iff)

lemma of_char_word32_inj: "(of_char a :: 32 word) = of_char b \<longleftrightarrow> a = b"
proof -
  have small: "take_bit 32 (of_char c :: nat) = of_char c" for c
  proof (rule take_bit_nat_eq_self)
    have "(of_char c :: nat) < 256" by (rule nat_of_char_less_256)
    then show "(of_char c :: nat) < 2 ^ 32" by (rule less_trans) simp
  qed
  have "(of_char a :: 32 word) = of_char b
          \<longleftrightarrow> (word_of_nat (of_char a) :: 32 word) = word_of_nat (of_char b)"
    by (simp only: of_nat_of_char)
  also have "\<dots> \<longleftrightarrow> (of_char a :: nat) = of_char b"
    by (simp add: word_of_nat_eq_iff small)
  also have "\<dots> \<longleftrightarrow> a = b"
    by (rule of_char_eq_iff)
  finally show ?thesis .
qed

lemma word_xor_zero_iff: "(x XOR y = 0) = (x = (y :: 32 word))"
  by (metis bit.xor_left_self xor.right_neutral)

lemma compareLoop_zero_iff:
  assumes "length sg = length ex"
  shows "compareLoop sg ex = 0 \<longleftrightarrow> sg = ex"
proof -
  have "compareLoop sg ex = 0 \<longleftrightarrow> (\<forall>i<length sg. sg ! i = ex ! i)"
    by (auto simp: compareLoop_def fold_or_zero charCodeAt_def word_xor_zero_iff
        of_char_word32_inj)
  also have "\<dots> \<longleftrightarrow> sg = ex"
    using assms by (auto simp: list_eq_iff_nth_eq)
  finally show ?thesis .
qed

lemma verifyHMAC_iff: "verifyHMAC hm d sg \<longleftrightarrow> hm d GAME_SECRET = Some sg"
  by (auto simp: verifyHMAC_def generateHMAC_def compareLoop_zero_iff split: option.splits)

lemma lastIndexOf_None_iff: "lastIndexOf xs c = None \<longleftrightarrow> c \<notin> set xs"
  by (induction xs) (auto split: option.splits)

lemma lastIndexOf_append:
  "c \<notin> set s \<Longrightarrow> lastIndexOf (d @ c # s) c = Some (length d)"
  by (induction d) (auto simp: lastIndexOf_None_iff split: option.splits)

lemma lastIndexOf_Some:
  "lastIndexOf xs c = Some i \<Longrightarrow> xs = take i xs @ c # drop (Suc i) xs"
  by (induction xs arbitrary: i) (auto split: option.splits if_splits)

lemma decodeSignedData_sound:
  assumes "decodeSignedData hm encoded = Inr x"
  shows "\<exists>sg. hm x GAME_SECRET = Some sg \<and> encoded = x @ ''.'' @ sg \<and> x \<noteq> [] \<and> sg \<noteq> []"
proof -
  from assms obtain i where i: "lastIndexOf encoded CHR ''.'' = Some i"
    by (auto simp: decodeSignedData_def split: option.splits)
  let ?d = "take i encoded" and ?s = "drop (Suc i) encoded"
  from assms i have ne: "?d \<noteq> []" "?s \<noteq> []"
    and v: "verifySignedData hm \<lparr>data = ?d, signature = ?s\<rparr> = Inr x"
    by (auto simp: decodeSignedData_def Let_def split: if_splits)
  from v have "x = ?d" "hm ?d GAME_SECRET = Some ?s"
    by (auto simp: verifySignedData_def verifyHMAC_iff split: if_splits)
  moreover from lastIndexOf_Some [OF i] have "encoded = ?d @ ''.'' @ ?s" by simp
  ultimately show ?thesis using ne by metis
qed

lemma decodeSignedData_error:
  assumes "decodeSignedData hm encoded = Inl e"
  shows "\<exists>msg. e = HMACError msg"
  using assms
  by (auto simp: decodeSignedData_def verifySignedData_def Let_def split: option.splits if_splits)

lemma decodeSignedData_signed:
  assumes "hm d GAME_SECRET = Some h" "d \<noteq> []" "h \<noteq> []" "CHR ''.'' \<notin> set h"
  shows "decodeSignedData hm (d @ CHR ''.'' # h) = Inr d"
  using assms
  by (simp add: decodeSignedData_def lastIndexOf_append verifySignedData_def verifyHMAC_iff)

lemma hexDigit_not_dot: "hexDigit n \<noteq> CHR ''.''" "CHR ''.'' \<noteq> hexDigit n"
proof -
  have "hexDigit n \<in> set ''0123456789abcdef''"
    unfolding hexDigit_def by (rule nth_mem) simp
  then show "hexDigit n \<noteq> CHR ''.''" "CHR ''.'' \<noteq> hexDigit n" by auto
qed

lemma sampleDigest_format:
  "\<forall>x h. sampleDigest x GAME_SECRET = Some h \<longrightarrow> length h = 64 \<and> CHR ''.'' \<notin> set h"
  by (auto simp: sampleDigest_def hexDigit_not_dot)

lemma GAME_SECRET_length: "length GAME_SECRET = 25"
  by (simp add: GAME_SECRET_def)

lemma sampleDigest_ab:
  "sampleDigest ''ab'' GAME_SECRET = Some (replicate 64 CHR ''c'')"
  by (simp add: sampleDigest_def hexDigit_def GAME_SECRET_length)

text \<open>
  Claim C9 (as amended). For every non-empty string \<open>d\<close>, also one that contains
  the separator \<open>.\<close>, \<open>decodeSignedData(encodeSignedData(signData(d)))\<close> returns \<open>d\<close>,
  provided the digest of \<open>d\<close> is a non-empty string without \<open>.\<close> (as a hex digest
  is): the decoder splits at the last \<open>.\<close>, which is the separator.
\<close>

theorem sign_roundtrip:
  assumes "d \<noteq> []" and "hm d GAME_SECRET = Some h" and "h \<noteq> []" and "CHR ''.'' \<notin> set h"
  shows "decodeEncodeSign hm d = Inr d"
  using assms
  by (simp add: decodeEncodeSign_def signData_def generateHMAC_def encodeSignedData_def
      decodeSignedData_signed)

lemma sampleDigest_a_dot_b:
  "sampleDigest ''a.b'' GAME_SECRET = Some (replicate 64 CHR ''a'')"
  by (simp add: sampleDigest_def hexDigit_def GAME_SECRET_length)

theorem sign_roundtrip_witness:
  "decodeEncodeSign sampleDigest ''a.b'' = Inr ''a.b''"
proof -
  have "replicate 64 CHR ''a'' \<noteq> []" by simp
  moreover have "CHR ''.'' \<notin> set (replicate 64 CHR ''a'')" by simp
  ultimately show ?thesis
    using sign_roundtrip [of "''a.b''" sampleDigest "replicate 64 CHR ''a''"] sampleDigest_a_dot_b
    by simp
qed

text \<open>
  Claim C9 as stated fails at the empty string: the encoded token starts with
  the separator, and the decoder refuses an empty data part. The digest plays
  no role in this outcome.
\<close>

theorem sign_roundtrip_empty_counterexample:
  "decodeEncodeSign sampleDigest [] =
     Inl (HMACError ''Invalid signed data format - empty data or signature'')"
proof -
  obtain h where h: "sampleDigest [] GAME_SECRET = Some h"
    by (simp add: sampleDigest_def)
  with sampleDigest_format have dot: "CHR ''.'' \<notin> set h"
    by blast
  from dot have "lastIndexOf (CHR ''.'' # h) CHR ''.'' = Some 0"
    using lastIndexOf_append [of "CHR ''.''" h "[]"] by simp
  with h show ?thesis
    by (simp add: decodeEncodeSign_def signData_def generateHMAC_def encodeSignedData_def
        decodeSignedData_def)
qed

lemma decode_flipped:
  assumes digest: "\<forall>x h. hm x GAME_SECRET = Some h \<longrightarrow> length h = 64 \<and> CHR ''.'' \<notin> set h"
    and signed: "signData hm d = Inr sd"
    and idx: "i < length (encodeSignedData sd)"
    and flip: "c \<noteq> encodeSignedData sd ! i"
    and nocoll: "i < length d \<longrightarrow> hm (d[i := c]) GAME_SECRET \<noteq> hm d GAME_SECRET"
  shows "decodeSignedData hm ((encodeSignedData sd)[i := c]) \<noteq> Inr x"
proof
  let ?t = "encodeSignedData sd"
  assume ok: "decodeSignedData hm (?t[i := c]) = Inr x"
  from signed obtain h where h: "hm d GAME_SECRET = Some h" and sd: "sd = \<lparr>data = d, signature = h\<rparr>"
    by (auto simp: signData_def generateHMAC_def split: option.splits)
  then have t: "?t = d @ ''.'' @ h" by (simp add: encodeSignedData_def)
  from digest h have lh: "length h = 64" by blast
  from decodeSignedData_sound [OF ok] obtain sg
    where sg: "hm x GAME_SECRET = Some sg" and t': "?t[i := c] = x @ ''.'' @ sg"
    by blast
  from digest sg have lsg: "length sg = 64" by blast
  have "length (?t[i := c]) = length ?t" by simp
  with t t' lh lsg have lx: "length x = length d" by simp
  have x: "x = take (length d) (?t[i := c])"
    using t' lx by simp
  have sgd: "sg = drop (Suc (length d)) (?t[i := c])"
    using t' lx by simp
  show False
  proof (cases "i < length d")
    case True
    then have "x = d[i := c]"
      using x t by (simp add: take_update_swap)
    moreover have "sg = h"
      using sgd t True by (simp add: drop_update_cancel)
    ultimately show False using nocoll True sg h by simp
  next
    case False
    then have "x = d" using x t by simp
    with sg h have "sg = h" by simp
    with \<open>x = d\<close> t t' have "?t[i := c] = ?t" by simp
    then have "(?t[i := c]) ! i = ?t ! i" by simp
    with idx flip show False by simp
  qed
qed

text \<open>
  Claim C1. First conjunct: whenever the supplied signature \<open>s\<close> is not the
  recomputed digest of the payload \<open>p\<close>, decoding \<open>p.s\<close> fails with an \<open>HMACError\<close>
  and \<open>decryptGameState\<close> is not called. Second conjunct: a signed token in which
  the character at any one index \<open>i\<close> is replaced by a different character \<open>c\<close>
  fails in the same way, before any decryption. The digest function is the
  library's: it is assumed to return 64 characters without \<open>.\<close>, and, for a
  change inside the payload, to give the changed payload another digest than
  the original one (two payloads with equal digests cannot be told apart by
  any check of the tag).
\<close>

theorem tampered_token_rejected:
  "(CHR ''.'' \<notin> set s \<and> hm p GAME_SECRET \<noteq> Some s \<longrightarrow>
      (\<exists>msg. decodeSignedData hm (p @ ''.'' @ s) = Inl (HMACError msg)
           \<and> loadSignedState hm L (p @ ''.'' @ s) = (Inl (HMACError msg), 0)))
 \<and> ((\<forall>x h. hm x GAME_SECRET = Some h \<longrightarrow> length h = 64 \<and> CHR ''.'' \<notin> set h)
      \<and> signData hm d = Inr sd
      \<and> i < length (encodeSignedData sd) \<and> c \<noteq> encodeSignedData sd ! i
      \<and> (i < length d \<longrightarrow> hm (d[i := c]) GAME_SECRET \<noteq> hm d GAME_SECRET) \<longrightarrow>
      (\<exists>msg. decodeSignedData hm ((encodeSignedData sd)[i := c]) = Inl (HMACError msg)
           \<and> loadSignedState hm L ((encodeSignedData sd)[i := c]) = (Inl (HMACError msg), 0)))"
proof (intro conjI impI)
  have rejected: "\<exists>msg. decodeSignedData hm t = Inl (HMACError msg)
                     \<and> loadSignedState hm L t = (Inl (HMACError msg), 0)"
    if "\<And>x. decodeSignedData hm t \<noteq> Inr x" for t
  proof (cases "decodeSignedData hm t")
    case (Inl e)
    with decodeSignedData_error [OF Inl] show ?thesis
      by (auto simp: loadSignedState_def)
  next
    case (Inr x)
    with that [of x] show ?thesis by simp
  qed
  {
    assume a: "CHR ''.'' \<notin> set s \<and> hm p GAME_SECRET \<noteq> Some s"
    have "decodeSignedData hm (p @ ''.'' @ s) \<noteq> Inr x" for x
    proof
      assume ok: "decodeSignedData hm (p @ ''.'' @ s) = Inr x"
      from a have "lastIndexOf (p @ ''.'' @ s) CHR ''.'' = Some (length p)"
        by (simp add: lastIndexOf_append)
      with ok a show False
        by (auto simp: decodeSignedData_def Let_def verifySignedData_def verifyHMAC_iff
            split: if_splits)
    qed
    then show "\<exists>msg. decodeSignedData hm (p @ ''.'' @ s) = Inl (HMACError msg)
           \<and> loadSignedState hm L (p @ ''.'' @ s) = (Inl (HMACError msg), 0)"
      by (rule rejected)
  }
  {
    assume a: "(\<forall>x h. hm x GAME_SECRET = Some h \<longrightarrow> length h = 64 \<and> CHR ''.'' \<notin> set h)
      \<and> signData hm d = Inr sd
      \<and> i < length (encodeSignedData sd) \<and> c \<noteq> encodeSignedData sd ! i
      \<and> (i < length d \<longrightarrow> hm (d[i := c]) GAME_SECRET \<noteq> hm d GAME_SECRET)"
    then have "decodeSignedData hm ((encodeSignedData sd)[i := c]) \<noteq> Inr x" for x
      using decode_flipped [of hm d sd i c x] by blast
    then show "\<exists>msg. decodeSignedData hm ((encodeSignedData sd)[i := c]) = Inl (HMACError msg)
           \<and> loadSignedState hm L ((encodeSignedData sd)[i := c]) = (Inl (HMACError msg), 0)"
      by (rule rejected)
  }
qed

theorem tampered_token_rejected_witness:
  "signData sampleDigest ''ab'' = Inr \<lparr>data = ''ab'', signature = replicate 64 CHR ''c''\<rparr>
   \<and> sampleDigest ''bb'' GAME_SECRET \<noteq> sampleDigest ''ab'' GAME_SECRET
   \<and> (\<exists>msg. decodeSignedData sampleDigest
               ((encodeSignedData \<lparr>data = ''ab'', signature = replicate 64 CHR ''c''\<rparr>)[0 := CHR ''b''])
               = Inl (HMACError msg)
            \<and> loadSignedState sampleDigest sampleLibs
               ((encodeSignedData \<lparr>data = ''ab'', signature = replicate 64 CHR ''c''\<rparr>)[0 := CHR ''b''])
               = (Inl (HMACError msg), 0))
   \<and> (\<exists>msg. decodeSignedData sampleDigest
               ((encodeSignedData \<lparr>data = ''ab'', signature = replicate 64 CHR ''c''\<rparr>)[5 := CHR ''.''])
               = Inl (HMACError msg)
            \<and> loadSignedState sampleDigest sampleLibs
               ((encodeSignedData \<lparr>data = ''ab'', signature = replicate 64 CHR ''c''\<rparr>)[5 := CHR ''.''])
               = (Inl (HMACError msg), 0))
   \<and> (\<exists>msg. decodeSignedData sampleDigest (''ab'' @ ''.'' @ ''zz'') = Inl (HMACError msg)
            \<and> loadSignedState sampleDigest sampleLibs (''ab'' @ ''.'' @ ''zz'')
               = (Inl (HMACError msg), 0))"
proof -
  let ?sd = "\<lparr>data = ''ab'', signature = replicate 64 CHR ''c''\<rparr>"
  have sg: "signData sampleDigest ''ab'' = Inr ?sd"
    by (simp add: signData_def generateHMAC_def sampleDigest_ab)
  have bb: "sampleDigest ''bb'' GAME_SECRET = Some (replicate 64 CHR ''d'')"
    by (simp add: sampleDigest_def hexDigit_def GAME_SECRET_length)
  have ne: "sampleDigest ''bb'' GAME_SECRET \<noteq> sampleDigest ''ab'' GAME_SECRET"
    unfolding bb sampleDigest_ab by simp
  have idx: "0 < length (encodeSignedData ?sd)" "CHR ''b'' \<noteq> encodeSignedData ?sd ! 0"
    "5 < length (encodeSignedData ?sd)" "CHR ''.'' \<noteq> encodeSignedData ?sd ! 5"
    by (simp_all add: encodeSignedData_def nth_append)
  have "sampleDigest ''ab'' GAME_SECRET \<noteq> Some ''zz''"
  proof
    assume "sampleDigest ''ab'' GAME_SECRET = Some ''zz''"
    then have "replicate 64 CHR ''c'' = ''zz''" by (simp add: sampleDigest_ab)
    then have "length (replicate 64 CHR ''c'') = length ''zz''" by (rule arg_cong)
    then show False by simp
  qed
  then have mis: "CHR ''.'' \<notin> set ''zz''" "sampleDigest ''ab'' GAME_SECRET \<noteq> Some ''zz''"
    by simp_all
  have upd: "''ab''[0 := CHR ''b''] = ''bb''" by simp
  from tampered_token_rejected [of "''zz''" sampleDigest "''ab''" sampleLibs "''ab''" ?sd 0 "CHR ''b''"]
    sampleDigest_format sg ne idx mis upd
  have first: "(\<exists>msg. decodeSignedData sampleDigest ((encodeSignedData ?sd)[0 := CHR ''b''])
               = Inl (HMACError msg)
            \<and> loadSignedState sampleDigest sampleLibs ((encodeSignedData ?sd)[0 := CHR ''b''])
               = (Inl (HMACError msg), 0))"
    and third: "(\<exists>msg. decodeSignedData sampleDigest (''ab'' @ ''.'' @ ''zz'') = Inl (HMACError msg)
            \<and> loadSignedState sampleDigest sampleLibs (''ab'' @ ''.'' @ ''zz'')
               = (Inl (HMACError msg), 0))"
    by simp_all
  from tampered_token_rejected [of "''zz''" sampleDigest "''ab''" sampleLibs "''ab''" ?sd 5 "CHR ''.''"]
    sampleDigest_format sg idx
  have second: "(\<exists>msg. decodeSignedData sampleDigest ((encodeSignedData ?sd)[5 := CHR ''.''])
               = Inl (HMACError msg)
            \<and> loadSignedState sampleDigest sampleLibs ((encodeSignedData ?sd)[5 := CHR ''.''])
               = (Inl (HMACError msg), 0))"
    by simp
  from sg ne first second third show ?thesis by blast
qed

section \<open>Properties of the encryption module\<close>

lemma tableLibs_invert: "libs_invert (tableLibs v)"
  by (simp add: libs_invert_def tableLibs_def sampleLibs_def)

lemma decryptOfEncrypt_parse:
  assumes libs: "libs_invert L" and str: "JSON_stringify L v = Some j"
  shows "decryptOfEncrypt L salt v
           = (case JSON_parse L j of
                None \<Rightarrow> Inl (Error ''Failed to decrypt game state'')
              | Some w \<Rightarrow> Inr w)"
proof -
  let ?c = "lz_compress L j"
  let ?e = "AES_encrypt L salt ?c GAME_SECRET"
  from libs obtain b where b: "btoa L ?e = Some b"
    unfolding libs_invert_def by blast
  with libs have a: "atob L b = Some ?e"
    unfolding libs_invert_def by blast
  from libs str have ne: "j \<noteq> []" "?c \<noteq> []"
    unfolding libs_invert_def by blast+
  from libs have d: "AES_decrypt L ?e GAME_SECRET = Some ?c"
    and z: "lz_decompress L ?c = Some j"
    unfolding libs_invert_def by blast+
  have "encryptGameState L salt v = Inr b"
    using str b by (simp add: encryptGameState_def)
  then show ?thesis
    using a d z ne by (simp add: decryptOfEncrypt_def decryptGameState_def)
qed

lemma jsonValue_roundJS: "jsonValue (roundJS r) = Some (roundJS r)"
  by (simp add: roundJS_def isFinite_def)

lemma asRound_roundJS: "asRound (roundJS r) = Some r"
  by (simp add: asRound_def roundJS_def getProp_def asString_def asInteger_def)

lemma those_map_Some: "those (map Some xs) = Some xs"
  by (induction xs) simp_all

lemma jsonValue_rounds:
  "jsonValue (JArray (map roundJS rs)) = Some (JArray (map roundJS rs))"
  by (simp add: comp_def jsonValue_roundJS)

lemma asRounds_rounds: "asRounds (JArray (map roundJS rs)) = Some rs"
  by (simp add: asRounds_def comp_def asRound_roundJS those_map_Some)

text \<open>
  What \<open>JSON\<close> keeps of a state object: the unset choices are dropped, and a
  total that is not finite becomes \<open>null\<close>.
\<close>

lemma jsonValue_toJS:
  "jsonValue (toJS s) =
     Some (JObject
       ([(''gameId'', JString (gameId s)), (''currentRound'', JNumber (Fin (currentRound s)))]
        @ (case player1Choice s of None \<Rightarrow> [] | Some c \<Rightarrow> [(''player1Choice'', JString c)])
        @ (case player2Choice s of None \<Rightarrow> [] | Some c \<Rightarrow> [(''player2Choice'', JString c)])
        @ [(''player1Total'', if isFinite (player1Total s) then JNumber (player1Total s) else JNull),
           (''player2Total'', if isFinite (player2Total s) then JNumber (player2Total s) else JNull),
           (''rounds'', JArray (map roundJS (rounds s)))]))"
proof -
  have r: "jsonValue (JArray (map roundJS (rounds s))) = Some (JArray (map roundJS (rounds s)))"
    by (rule jsonValue_rounds)
  have "jsonValue (toJS s) =
     Some (JObject (concat (map (\<lambda>(k, w). case w of None \<Rightarrow> [] | Some x \<Rightarrow> [(k, x)])
       [(''gameId'', jsonValue (JString (gameId s))),
        (''currentRound'', jsonValue (JNumber (Fin (currentRound s)))),
        (''player1Choice'', jsonValue (choiceJS (player1Choice s))),
        (''player2Choice'', jsonValue (choiceJS (player2Choice s))),
        (''player1Total'', jsonValue (JNumber (player1Total s))),
        (''player2Total'', jsonValue (JNumber (player2Total s))),
        (''rounds'', jsonValue (JArray (map roundJS (rounds s))))])))"
    unfolding toJS_def by (simp del: jsonValue.simps(6) add: jsonValue.simps(7))
  then show ?thesis
    unfolding r
    by (simp add: choiceJS_def isFinite_def split: option.splits)
qed

lemma json_total1:
  assumes "jsonValue (toJS s) = Some w"
  shows "getProp w ''player1Total''
           = (if isFinite (player1Total s) then JNumber (player1Total s) else JNull)"
proof -
  from assms have w: "w = JObject
       ([(''gameId'', JString (gameId s)), (''currentRound'', JNumber (Fin (currentRound s)))]
        @ (case player1Choice s of None \<Rightarrow> [] | Some c \<Rightarrow> [(''player1Choice'', JString c)])
        @ (case player2Choice s of None \<Rightarrow> [] | Some c \<Rightarrow> [(''player2Choice'', JString c)])
        @ [(''player1Total'', if isFinite (player1Total s) then JNumber (player1Total s) else JNull),
           (''player2Total'', if isFinite (player2Total s) then JNumber (player2Total s) else JNull),
           (''rounds'', JArray (map roundJS (rounds s)))])"
    by (simp add: jsonValue_toJS)
  show ?thesis
    unfolding w by (simp add: getProp_def split: option.splits)
qed

lemma asGameState_kept:
  assumes "isFinite (player1Total s)" and "isFinite (player2Total s)"
    and "jsonValue (toJS s) = Some w"
  shows "asGameState w = Some s"
proof -
  from assms(3) have w: "w = JObject
       ([(''gameId'', JString (gameId s)), (''currentRound'', JNumber (Fin (currentRound s)))]
        @ (case player1Choice s of None \<Rightarrow> [] | Some c \<Rightarrow> [(''player1Choice'', JString c)])
        @ (case player2Choice s of None \<Rightarrow> [] | Some c \<Rightarrow> [(''player2Choice'', JString c)])
        @ [(''player1Total'', JNumber (player1Total s)),
           (''player2Total'', JNumber (player2Total s)),
           (''rounds'', JArray (map roundJS (rounds s)))])"
    using assms(1,2) by (simp add: jsonValue_toJS)
  have g: "getProp w ''gameId'' = JString (gameId s)"
    and n: "getProp w ''currentRound'' = JNumber (Fin (currentRound s))"
    and c1: "getProp w ''player1Choice'' = choiceJS (player1Choice s)"
    and c2: "getProp w ''player2Choice'' = choiceJS (player2Choice s)"
    and t1: "getProp w ''player1Total'' = JNumber (player1Total s)"
    and t2: "getProp w ''player2Total'' = JNumber (player2Total s)"
    and rs: "getProp w ''rounds'' = JArray (map roundJS (rounds s))"
    unfolding w by (simp_all add: getProp_def choiceJS_def split: option.splits)
  have ch: "asChoice (choiceJS c) = Some c" for c
    by (simp add: asChoice_def choiceJS_def split: option.splits)
  show ?thesis
    unfolding asGameState_def g n c1 c2 t1 t2 rs
    by (simp add: asString_def asInteger_def asNumber_def ch asRounds_rounds)
qed

lemma asGameState_lost:
  assumes "\<not> (isFinite (player1Total s) \<and> isFinite (player2Total s))"
    and "jsonValue (toJS s) = Some w"
  shows "asGameState w \<noteq> Some s"
proof -
  from assms(2) have w: "w = JObject
       ([(''gameId'', JString (gameId s)), (''currentRound'', JNumber (Fin (currentRound s)))]
        @ (case player1Choice s of None \<Rightarrow> [] | Some c \<Rightarrow> [(''player1Choice'', JString c)])
        @ (case player2Choice s of None \<Rightarrow> [] | Some c \<Rightarrow> [(''player2Choice'', JString c)])
        @ [(''player1Total'', if isFinite (player1Total s) then JNumber (player1Total s) else JNull),
           (''player2Total'', if isFinite (player2Total s) then JNumber (player2Total s) else JNull),
           (''rounds'', JArray (map roundJS (rounds s)))])"
    by (simp add: jsonValue_toJS)
  have t1: "getProp w ''player1Total''
              = (if isFinite (player1Total s) then JNumber (player1Total s) else JNull)"
    and t2: "getProp w ''player2Total''
              = (if isFinite (player2Total s) then JNumber (player2Total s) else JNull)"
    unfolding w by (simp_all add: getProp_def split: option.splits)
  from assms(1) have "asNumber (getProp w ''player1Total'') = None
                      \<or> asNumber (getProp w ''player2Total'') = None"
    unfolding t1 t2 by (auto simp: asNumber_def)
  then have "asGameState w = None"
    unfolding asGameState_def by (auto split: option.splits)
  then show ?thesis by simp
qed

lemma asGameState_json:
  assumes "jsonValue (toJS s) = Some w"
  shows "asGameState w = Some s \<longleftrightarrow> isFinite (player1Total s) \<and> isFinite (player2Total s)"
  using asGameState_kept [OF _ _ assms] asGameState_lost [OF _ assms] by blast

text \<open>
  Claim C2 (as amended). Let the libraries undo each other stage by stage, and
  let \<open>JSON.parse\<close> return, for the text \<open>JSON.stringify\<close> wrote of the state object,
  the value the language defines. Then \<open>decryptGameState(encryptGameState(s))\<close>
  returns a value for every state \<open>s\<close> and every salt, and that value, read as a
  state, is \<open>s\<close> itself (the id, the round number, both choices, both totals and
  the round history in its order) exactly when both totals are finite numbers.
\<close>

theorem snapshot_roundtrip:
  assumes libs: "libs_invert L"
    and str: "JSON_stringify L (toJS s) = Some j"
    and prs: "JSON_parse L j = jsonValue (toJS s)"
  shows "\<exists>decoded. decryptOfEncrypt L salt (toJS s) = Inr decoded
           \<and> (asGameState decoded = Some s
                \<longleftrightarrow> isFinite (player1Total s) \<and> isFinite (player2Total s))"
proof -
  obtain w where w: "jsonValue (toJS s) = Some w"
    by (simp add: toJS_def)
  from decryptOfEncrypt_parse [OF libs str, of salt] prs w
  have "decryptOfEncrypt L salt (toJS s) = Inr w" by simp
  with asGameState_json [OF w] show ?thesis by blast
qed

lemma sample_totals:
  "player1Total sampleSnapshot = Fin 5" "player2Total sampleSnapshot = Fin 2"
  by code_simp+

theorem snapshot_roundtrip_witness:
  "libs_invert (tableLibs (toJS sampleSnapshot))
   \<and> JSON_stringify (tableLibs (toJS sampleSnapshot)) (toJS sampleSnapshot) = Some ''{snapshot}''
   \<and> JSON_parse (tableLibs (toJS sampleSnapshot)) ''{snapshot}'' = jsonValue (toJS sampleSnapshot)
   \<and> isFinite (player1Total sampleSnapshot) \<and> isFinite (player2Total sampleSnapshot)
   \<and> (\<exists>decoded. decryptOfEncrypt (tableLibs (toJS sampleSnapshot)) ''salt'' (toJS sampleSnapshot)
                   = Inr decoded
                \<and> asGameState decoded = Some sampleSnapshot)"
proof -
  let ?L = "tableLibs (toJS sampleSnapshot)"
  have str: "JSON_stringify ?L (toJS sampleSnapshot) = Some ''{snapshot}''"
    and prs: "JSON_parse ?L ''{snapshot}'' = jsonValue (toJS sampleSnapshot)"
    by (simp_all add: tableLibs_def)
  have fin: "isFinite (player1Total sampleSnapshot)" "isFinite (player2Total sampleSnapshot)"
    by (simp_all add: sample_totals isFinite_def)
  from snapshot_roundtrip [OF tableLibs_invert str prs, of "''salt''"] fin
  have "\<exists>decoded. decryptOfEncrypt ?L ''salt'' (toJS sampleSnapshot) = Inr decoded
                \<and> asGameState decoded = Some sampleSnapshot"
    by simp
  with tableLibs_invert str prs fin show ?thesis by blast
qed

lemma overflow_load: "loadGameConfig (\<lambda>u. True) overflowConfig None = Inr overflowConfig"
  by code_simp

lemma overflow_total: "player1Total overflowSnapshot = PosInf"
  by code_simp

text \<open>
  Claim C2 as stated fails for a state whose total is not finite. The
  configuration with the score \<open>2 ^ 1023\<close> is accepted by the loader; after two
  rounds of (hawk, hawk) the total of player 1 is \<open>Infinity\<close>; \<open>JSON.stringify\<close>
  writes it as \<open>null\<close>, so the decoded value holds \<open>null\<close> where the state held
  \<open>Infinity\<close>.
\<close>

theorem snapshot_overflow_counterexample:
  "loadGameConfig (\<lambda>u. True) overflowConfig None = Inr overflowConfig
   \<and> player1Total overflowSnapshot = PosInf
   \<and> libs_invert (tableLibs (toJS overflowSnapshot))
   \<and> JSON_stringify (tableLibs (toJS overflowSnapshot)) (toJS overflowSnapshot)
       = Some ''{snapshot}''
   \<and> JSON_parse (tableLibs (toJS overflowSnapshot)) ''{snapshot}''
       = jsonValue (toJS overflowSnapshot)
   \<and> (\<exists>decoded.
         decryptOfEncrypt (tableLibs (toJS overflowSnapshot)) ''salt'' (toJS overflowSnapshot)
           = Inr decoded
       \<and> getProp decoded ''player1Total'' = JNull
       \<and> asGameState decoded \<noteq> Some overflowSnapshot)"
proof -
  let ?L = "tableLibs (toJS overflowSnapshot)"
  have str: "JSON_stringify ?L (toJS overflowSnapshot) = Some ''{snapshot}''"
    and prs: "JSON_parse ?L ''{snapshot}'' = jsonValue (toJS overflowSnapshot)"
    by (simp_all add: tableLibs_def)
  obtain w where w: "jsonValue (toJS overflowSnapshot) = Some w"
    by (simp add: toJS_def)
  from decryptOfEncrypt_parse [OF tableLibs_invert str, of "''salt''"] prs w
  have dec: "decryptOfEncrypt ?L ''salt'' (toJS overflowSnapshot) = Inr w" by simp
  have inf: "\<not> isFinite (player1Total overflowSnapshot)"
    by (simp add: overflow_total isFinite_def)
  from json_total1 [OF w] inf have null: "getProp w ''player1Total'' = JNull" by simp
  from inf have "\<not> (isFinite (player1Total overflowSnapshot)
                    \<and> isFinite (player2Total overflowSnapshot))" by simp
  then have lost: "asGameState w \<noteq> Some overflowSnapshot"
    using w by (rule asGameState_lost)
  from overflow_load overflow_total tableLibs_invert str prs dec null lost
  show ?thesis by blast
qed

section \<open>Properties of the config loader\<close>

lemma stringMin1_Nil_iff: "stringMin1 msg p v = [] \<longleftrightarrow> v \<noteq> []"
  by (simp add: stringMin1_def)

lemma PayoffRuleSchema_Nil_iff:
  "PayoffRuleSchema p rule = []
     \<longleftrightarrow> cond_player1 (condition rule) \<noteq> [] \<and> cond_player2 (condition rule) \<noteq> []"
  by (simp add: PayoffRuleSchema_def stringMin1_Nil_iff)

lemma zip_upt_snd_all:
  "(\<forall>(i, x) \<in> set (zip [0..<length xs] xs). P x) \<longleftrightarrow> (\<forall>x \<in> set xs. P x)"
proof -
  have "map snd (zip [0..<length xs] xs) = xs"
    by (simp add: map_snd_zip)
  then have "set xs = snd ` set (zip [0..<length xs] xs)"
    by (metis set_map)
  then show ?thesis by auto
qed

lemma arrayMin_rules_Nil_iff:
  "arrayMin n msg PayoffRuleSchema p xs = []
     \<longleftrightarrow> n \<le> length xs
         \<and> (\<forall>rule \<in> set xs. cond_player1 (condition rule) \<noteq> []
                              \<and> cond_player2 (condition rule) \<noteq> [])"
proof -
  have "(\<forall>(i, x) \<in> set (zip [0..<length xs] xs). PayoffRuleSchema (p @ [Index i]) x = [])
          \<longleftrightarrow> (\<forall>(i, x) \<in> set (zip [0..<length xs] xs).
                 cond_player1 (condition x) \<noteq> [] \<and> cond_player2 (condition x) \<noteq> [])"
    by (simp add: PayoffRuleSchema_Nil_iff)
  also have "\<dots> \<longleftrightarrow> (\<forall>rule \<in> set xs. cond_player1 (condition rule) \<noteq> []
                              \<and> cond_player2 (condition rule) \<noteq> [])"
    by (rule zip_upt_snd_all)
  finally show ?thesis
    by (auto simp: arrayMin_def)
qed

lemma arrayMin_length: "arrayMin n msg schema p xs = [] \<Longrightarrow> n \<le> length xs"
  by (auto simp: arrayMin_def split: if_splits)

lemma set_removeAt: "set (removeAt i xs) \<subseteq> set xs"
  unfolding removeAt_def using set_take_subset [of i xs] set_drop_subset [of "Suc i" xs] by auto

lemma length_removeAt: "i < length xs \<Longrightarrow> length (removeAt i xs) = length xs - 1"
  by (auto simp: removeAt_def)

lemma map_removeAt: "map f (removeAt i xs) = removeAt i (map f xs)"
  by (simp add: removeAt_def take_map drop_map)

lemma distinct_removeAt: "distinct xs \<Longrightarrow> distinct (removeAt i xs)"
proof -
  assume d: "distinct xs"
  then have "distinct (take i xs @ drop i xs)" by simp
  then have "set (take i xs) \<inter> set (drop i xs) = {}" by (simp only: distinct_append)
  moreover have "set (drop (Suc i) xs) \<subseteq> set (drop i xs)"
    by (metis drop_Suc set_drop_subset tl_drop drop_drop Suc_eq_plus1 add.commute)
  ultimately have "set (take i xs) \<inter> set (drop (Suc i) xs) = {}" by auto
  with d show ?thesis by (simp add: removeAt_def)
qed

lemma duplicateLoop_Nil_iff:
  "duplicateLoop rules seen = []
     \<longleftrightarrow> distinct (map ruleKey rules) \<and> set (map ruleKey rules) \<inter> seen = {}"
  by (induction rules arbitrary: seen) auto

lemma unknownChoiceErrors_Nil_iff:
  "unknownChoiceErrors config = []
     \<longleftrightarrow> (\<forall>rule \<in> set (payoffRules config).
            cond_player1 (condition rule) \<in> set (map choice_id (choices config))
          \<and> cond_player2 (condition rule) \<in> set (map choice_id (choices config)))"
  by (auto simp: unknownChoiceErrors_def Let_def)

lemma validateGameConfigSemantics_Inr_iff:
  "validateGameConfigSemantics config = Inr u
     \<longleftrightarrow> unknownChoiceErrors config = [] \<and> duplicateRuleErrors config = []
         \<and> coverageErrors config = []"
  by (auto simp: validateGameConfigSemantics_def Let_def)

lemma loadGameConfig_Inr_iff:
  "loadGameConfig isUrl doc path = Inr accepted
     \<longleftrightarrow> accepted = doc \<and> GameConfigSchema isUrl doc = []
         \<and> unknownChoiceErrors doc = [] \<and> duplicateRuleErrors doc = []
         \<and> coverageErrors doc = []"
  by (auto simp: loadGameConfig_def GameConfigSchema_parse_def
      validateGameConfigSemantics_def Let_def split: list.splits sum.splits exn.splits)

lemma GameConfigSchema_Nil_iff:
  "GameConfigSchema isUrl doc = []
     \<longleftrightarrow> GameMetadataSchema isUrl [Key ''metadata''] (metadata doc) = []
       \<and> arrayMin 2 ''Must have at least 2 choices'' ChoiceOptionSchema [Key ''choices'']
           (choices doc) = []
       \<and> arrayMin 1 ''Must have at least 1 payoff rule'' PayoffRuleSchema [Key ''payoffRules'']
           (payoffRules doc) = []
       \<and> GameProgressionSchema [Key ''progression''] (progression doc) = []
       \<and> GameUISchema [Key ''ui''] (ui doc) = []"
  by (simp add: GameConfigSchema_def)

lemma sample_load: "loadGameConfig (\<lambda>u. True) sampleConfig None = Inr sampleConfig"
  by code_simp

lemma showNat_small: "showNat 1 = ''1''" "showNat 2 = ''2''" "showNat 3 = ''3''" "showNat 4 = ''4''"
  by (simp_all add: showNat.simps digitChar_def)

text \<open>
  Claim C3 (as amended). A configuration the validator accepts has exactly
  \<open>n * n\<close> payoff rules for its \<open>n\<close> choices, and removing any single rule makes
  the validator reject. The error report then holds one message, which gives
  the expected and the found number of rules (\<open>n * n\<close> and \<open>n * n - 1\<close>); it is
  the same whichever rule was removed.
\<close>

theorem removing_entry_rejected:
  assumes ok: "loadGameConfig isUrl config path = Inr accepted"
  shows "length (payoffRules config) = length (choices config) * length (choices config)
       \<and> (\<forall>i < length (payoffRules config).
            loadGameConfig isUrl (config\<lparr>payoffRules := removeAt i (payoffRules config)\<rparr>) path
              = Inl (ConfigValidationError ''Game config semantic validation failed''
                       [coverageMessage (length (choices config) * length (choices config))
                          (length (choices config))
                          (length (choices config) * length (choices config) - 1)]
                       None))"
proof (intro conjI allI impI)
  let ?n = "length (choices config)"
  from ok have schema: "GameConfigSchema isUrl config = []"
    and unk: "unknownChoiceErrors config = []"
    and dup: "duplicateRuleErrors config = []"
    and cov: "coverageErrors config = []"
    by (simp_all add: loadGameConfig_Inr_iff)
  from cov show len: "length (payoffRules config) = ?n * ?n"
    by (simp add: coverageErrors_def Let_def split: if_splits)
  fix i assume i: "i < length (payoffRules config)"
  let ?rules = "removeAt i (payoffRules config)"
  let ?c = "config\<lparr>payoffRules := ?rules\<rparr>"
  have sub: "set ?rules \<subseteq> set (payoffRules config)" by (rule set_removeAt)
  have lr: "length ?rules = ?n * ?n - 1"
    using i len by (simp add: length_removeAt)
  from schema have two: "2 \<le> ?n"
    by (auto simp: GameConfigSchema_Nil_iff dest: arrayMin_length)
  from two two have "2 * 2 \<le> ?n * ?n" by (rule mult_le_mono)
  with lr have one: "1 \<le> length ?rules" by simp
  from schema sub one have schema': "GameConfigSchema isUrl ?c = []"
    by (auto simp: GameConfigSchema_Nil_iff arrayMin_rules_Nil_iff)
  from unk sub have unk': "unknownChoiceErrors ?c = []"
    by (auto simp: unknownChoiceErrors_Nil_iff)
  from dup have "distinct (map ruleKey (payoffRules config))"
    by (simp add: duplicateRuleErrors_def duplicateLoop_Nil_iff)
  then have "distinct (map ruleKey ?rules)"
    unfolding map_removeAt by (rule distinct_removeAt)
  then have dup': "duplicateRuleErrors ?c = []"
    by (simp add: duplicateRuleErrors_def duplicateLoop_Nil_iff)
  from lr i len have cov': "coverageErrors ?c = [coverageMessage (?n * ?n) ?n (?n * ?n - 1)]"
    by (simp add: coverageErrors_def Let_def)
  show "loadGameConfig isUrl ?c path
          = Inl (ConfigValidationError ''Game config semantic validation failed''
                   [coverageMessage (?n * ?n) ?n (?n * ?n - 1)] None)"
    using schema' unk' dup' cov'
    by (simp add: loadGameConfig_def GameConfigSchema_parse_def validateGameConfigSemantics_def)
qed

theorem removing_entry_rejected_witness:
  "loadGameConfig (\<lambda>u. True) sampleConfig None = Inr sampleConfig
   \<and> length (payoffRules sampleConfig) = 4
   \<and> loadGameConfig (\<lambda>u. True)
        (sampleConfig\<lparr>payoffRules := removeAt 1 (payoffRules sampleConfig)\<rparr>) None
       = Inl (ConfigValidationError ''Game config semantic validation failed''
                [coverageMessage 4 2 3] None)"
proof -
  have n: "length (choices sampleConfig) = 2" and m: "(1::nat) < length (payoffRules sampleConfig)"
    by (simp_all add: sampleConfig_def)
  from removing_entry_rejected [OF sample_load] n m sample_load
  show ?thesis by simp
qed

text \<open>
  Claim C3 as stated fails on the message: in the accepted two-choice sample,
  removing the rule for (hawk, dove) and removing the rule for (dove, hawk)
  produce the same report, and its only message contains neither id.
\<close>

theorem removing_entry_counterexample:
  "payoffRules sampleConfig ! 1 = mkRule ''hawk'' ''dove'' 3 0
   \<and> payoffRules sampleConfig ! 2 = mkRule ''dove'' ''hawk'' 0 3
   \<and> loadGameConfig (\<lambda>u. True)
        (sampleConfig\<lparr>payoffRules := removeAt 1 (payoffRules sampleConfig)\<rparr>) None
     = Inl (ConfigValidationError ''Game config semantic validation failed''
        [''Expected 4 payoff rules (2 '' @ [timesSign] @ '' 2), but found 3. Every choice combination must have a payoff rule.'']
        None)
   \<and> loadGameConfig (\<lambda>u. True)
        (sampleConfig\<lparr>payoffRules := removeAt 2 (payoffRules sampleConfig)\<rparr>) None
     = Inl (ConfigValidationError ''Game config semantic validation failed''
        [''Expected 4 payoff rules (2 '' @ [timesSign] @ '' 2), but found 3. Every choice combination must have a payoff rule.'']
        None)
   \<and> \<not> strIncludes (''Expected 4 payoff rules (2 '' @ [timesSign] @ '' 2), but found 3. Every choice combination must have a payoff rule.'') ''hawk''
   \<and> \<not> strIncludes (''Expected 4 payoff rules (2 '' @ [timesSign] @ '' 2), but found 3. Every choice combination must have a payoff rule.'') ''dove''"
  by code_simp

lemma duplicateLoop_complete:
  "j < length rules \<Longrightarrow> ruleKey (rules ! j) \<in> seen \<union> ruleKey ` set (take j rules)
     \<Longrightarrow> (''Duplicate payoff rule for combination: '' @ ruleKey (rules ! j))
           \<in> set (duplicateLoop rules seen)"
proof (induction rules arbitrary: j seen)
  case Nil
  then show ?case by simp
next
  case (Cons rule rest)
  show ?case
  proof (cases j)
    case 0
    with Cons.prems show ?thesis by simp
  next
    case (Suc k)
    with Cons.prems have "k < length rest"
      and "ruleKey (rest ! k) \<in> insert (ruleKey rule) seen \<union> ruleKey ` set (take k rest)"
      by auto
    then have "(''Duplicate payoff rule for combination: '' @ ruleKey (rest ! k))
                 \<in> set (duplicateLoop rest (insert (ruleKey rule) seen))"
      by (rule Cons.IH)
    with Suc show ?thesis by simp
  qed
qed

text \<open>
  Claim C4 (as amended). When the schema finds an issue, \<open>loadGameConfig\<close> reports
  every issue of the schema and nothing else: the semantic checks are not
  run. When the schema finds none, the three semantic checks all run and
  their messages are reported together: one message for every reference to an
  unknown choice id, one for every rule whose key occurred earlier in the
  table, and the size message whenever the table does not have \<open>n * n\<close> rules.
\<close>

theorem loadGameConfig_report:
  "(GameConfigSchema isUrl doc \<noteq> [] \<longrightarrow>
      loadGameConfig isUrl doc path
        = Inl (ConfigValidationError (''Config validation failed: '' @ orUnknown path)
                 (map formatIssue (GameConfigSchema isUrl doc)) path))
 \<and> (GameConfigSchema isUrl doc = [] \<longrightarrow>
      loadGameConfig isUrl doc path
        = (if unknownChoiceErrors doc @ duplicateRuleErrors doc @ coverageErrors doc = []
           then Inr doc
           else Inl (ConfigValidationError ''Game config semantic validation failed''
                  (unknownChoiceErrors doc @ duplicateRuleErrors doc @ coverageErrors doc) None)))
 \<and> (\<forall>rule \<in> set (payoffRules doc).
       \<forall>i \<in> {cond_player1 (condition rule), cond_player2 (condition rule)}.
         i \<notin> choice_id ` set (choices doc) \<longrightarrow>
           unknownChoiceMessage i \<in> set (unknownChoiceErrors doc))
 \<and> (\<forall>j < length (payoffRules doc).
       ruleKey (payoffRules doc ! j) \<in> ruleKey ` set (take j (payoffRules doc)) \<longrightarrow>
         (''Duplicate payoff rule for combination: '' @ ruleKey (payoffRules doc ! j))
           \<in> set (duplicateRuleErrors doc))
 \<and> (length (payoffRules doc) \<noteq> length (choices doc) * length (choices doc) \<longrightarrow>
       coverageErrors doc
         = [coverageMessage (length (choices doc) * length (choices doc)) (length (choices doc))
              (length (payoffRules doc))])"
proof (intro conjI)
  show "GameConfigSchema isUrl doc \<noteq> [] \<longrightarrow>
      loadGameConfig isUrl doc path
        = Inl (ConfigValidationError (''Config validation failed: '' @ orUnknown path)
                 (map formatIssue (GameConfigSchema isUrl doc)) path)"
    by (auto simp: loadGameConfig_def GameConfigSchema_parse_def split: list.splits)
  show "GameConfigSchema isUrl doc = [] \<longrightarrow>
      loadGameConfig isUrl doc path
        = (if unknownChoiceErrors doc @ duplicateRuleErrors doc @ coverageErrors doc = []
           then Inr doc
           else Inl (ConfigValidationError ''Game config semantic validation failed''
                  (unknownChoiceErrors doc @ duplicateRuleErrors doc @ coverageErrors doc) None))"
    by (simp add: loadGameConfig_def GameConfigSchema_parse_def validateGameConfigSemantics_def
        Let_def)
  show "\<forall>rule \<in> set (payoffRules doc).
       \<forall>i \<in> {cond_player1 (condition rule), cond_player2 (condition rule)}.
         i \<notin> choice_id ` set (choices doc) \<longrightarrow>
           unknownChoiceMessage i \<in> set (unknownChoiceErrors doc)"
    by (auto simp: unknownChoiceErrors_def Let_def)
  show "\<forall>j < length (payoffRules doc).
       ruleKey (payoffRules doc ! j) \<in> ruleKey ` set (take j (payoffRules doc)) \<longrightarrow>
         (''Duplicate payoff rule for combination: '' @ ruleKey (payoffRules doc ! j))
           \<in> set (duplicateRuleErrors doc)"
    unfolding duplicateRuleErrors_def using duplicateLoop_complete [of _ "payoffRules doc" "{}"]
    by simp
  show "length (payoffRules doc) \<noteq> length (choices doc) * length (choices doc) \<longrightarrow>
       coverageErrors doc
         = [coverageMessage (length (choices doc) * length (choices doc)) (length (choices doc))
              (length (payoffRules doc))]"
    by (simp add: coverageErrors_def Let_def)
qed

lemma semanticFaults_schema: "GameConfigSchema (\<lambda>u. True) semanticFaultsConfig = []"
  by code_simp

theorem loadGameConfig_report_witness:
  "GameConfigSchema (\<lambda>u. True) semanticFaultsConfig = []
   \<and> loadGameConfig (\<lambda>u. True) semanticFaultsConfig None
       = Inl (ConfigValidationError ''Game config semantic validation failed''
           [unknownChoiceMessage ''lizard'', unknownChoiceMessage ''lizard'',
            ''Duplicate payoff rule for combination: hawk:lizard'',
            coverageMessage 4 2 2] None)"
proof -
  have a: "unknownChoiceErrors semanticFaultsConfig
             = [unknownChoiceMessage ''lizard'', unknownChoiceMessage ''lizard'']"
    by (simp add: unknownChoiceErrors_def semanticFaultsConfig_def sampleConfig_def mkRule_def
        mkChoice_def)
  have b: "duplicateRuleErrors semanticFaultsConfig
             = [''Duplicate payoff rule for combination: hawk:lizard'']"
    by (simp add: duplicateRuleErrors_def semanticFaultsConfig_def sampleConfig_def mkRule_def
        ruleKey_def)
  have c: "coverageErrors semanticFaultsConfig = [coverageMessage 4 2 2]"
    by (simp add: coverageErrors_def semanticFaultsConfig_def sampleConfig_def eval_nat_numeral)
  from loadGameConfig_report [of "\<lambda>u. True" semanticFaultsConfig None] semanticFaults_schema a b c
  show ?thesis by simp
qed

text \<open>
  Claim C4 as stated fails when the first class fails: for a document with
  \<open>totalRounds = 0\<close>, an unknown choice id and a table of the wrong size, the
  report holds the schema's issue only, although the semantic checks, run on
  the same document, find two violations.
\<close>

theorem loadGameConfig_report_counterexample:
  "loadGameConfig (\<lambda>u. True) brokenConfig None
     = Inl (ConfigValidationError ''Config validation failed: unknown''
              [''progression.totalRounds: Must have at least 1 round''] None)
   \<and> validateGameConfigSemantics brokenConfig
     = Inl (ConfigValidationError ''Game config semantic validation failed''
              [''Payoff rule references unknown choice ID: '' @ [dquote] @ ''lizard'' @ [dquote],
               ''Expected 4 payoff rules (2 '' @ [timesSign] @ '' 2), but found 1. Every choice combination must have a payoff rule.'']
              None)"
  by code_simp

section \<open>Properties of the game-state schema\<close>

text \<open>
  Claim C7 (as amended). For a state the generated schema accepts, replacing
  \<open>currentRound\<close> by an integer \<open>n\<close> gives a state the schema accepts exactly
  when \<open>1 \<le> n \<le> totalRounds\<close>: the value \<open>totalRounds + 1\<close> is rejected like
  every other value outside that range.
\<close>

theorem currentRound_bounds:
  assumes "safeParseSuccess F config s"
  shows "safeParseSuccess F config (s\<lparr>st_currentRound := n\<rparr>)
           \<longleftrightarrow> 1 \<le> n \<and> n \<le> totalRounds (progression config)"
  using assms
  by (auto simp: safeParseSuccess_def generateGameStateSchema_def split: sum.splits)

lemma sample_state_ok: "safeParseSuccess sampleFormats sampleConfig sampleSchemaState"
  by code_simp

theorem currentRound_bounds_witness:
  "safeParseSuccess sampleFormats sampleConfig sampleSchemaState
   \<and> safeParseSuccess sampleFormats sampleConfig (sampleSchemaState\<lparr>st_currentRound := 1\<rparr>)
   \<and> \<not> safeParseSuccess sampleFormats sampleConfig (sampleSchemaState\<lparr>st_currentRound := 0\<rparr>)"
proof -
  have t: "totalRounds (progression sampleConfig) = 3" by (simp add: sampleConfig_def)
  from currentRound_bounds [OF sample_state_ok, of 1] currentRound_bounds [OF sample_state_ok, of 0]
    sample_state_ok t
  show ?thesis by simp
qed

text \<open>
  Claim C7 as stated fails at \<open>totalRounds + 1\<close>: with three rounds, round 3
  passes the schema and round 4 does not.
\<close>

theorem currentRound_finished_counterexample:
  "totalRounds (progression sampleConfig) = 3
   \<and> safeParseSuccess sampleFormats sampleConfig (sampleSchemaState\<lparr>st_currentRound := 3\<rparr>)
   \<and> \<not> safeParseSuccess sampleFormats sampleConfig (sampleSchemaState\<lparr>st_currentRound := 3 + 1\<rparr>)"
  by code_simp

section \<open>Properties of the state transitions\<close>

lemma roundToDouble_safe: "\<bar>x\<bar> < 2 ^ 53 \<Longrightarrow> roundToDouble x = Fin x"
proof -
  assume "\<bar>x\<bar> < 2 ^ 53"
  then show ?thesis by (simp add: roundToDouble_def Let_def)
qed

lemma jsSum_snoc: "jsSum (scores @ [x]) = jsAdd (jsSum scores) (Fin x)"
  by (simp add: jsSum_def)

lemma safePartialSums_iff:
  "safePartialSums scores \<longleftrightarrow> (\<forall>k \<le> length scores. \<bar>sum_list (take k scores)\<bar> < 2 ^ 53)"
  by (auto simp: safePartialSums_def list_all_iff less_Suc_eq_le)

lemma safePartialSums_snoc:
  assumes "safePartialSums (scores @ [x])"
  shows "safePartialSums scores" and "\<bar>sum_list scores + x\<bar> < 2 ^ 53"
proof -
  from assms have all: "\<forall>k \<le> Suc (length scores). \<bar>sum_list (take k (scores @ [x]))\<bar> < 2 ^ 53"
    by (simp add: safePartialSums_iff)
  show "safePartialSums scores"
    unfolding safePartialSums_iff
  proof (intro allI impI)
    fix k assume k: "k \<le> length scores"
    then have "k \<le> Suc (length scores)" by simp
    with all have "\<bar>sum_list (take k (scores @ [x]))\<bar> < 2 ^ 53" by blast
    moreover from k have "take k (scores @ [x]) = take k scores" by simp
    ultimately show "\<bar>sum_list (take k scores)\<bar> < 2 ^ 53" by simp
  qed
  from all have "\<bar>sum_list (take (Suc (length scores)) (scores @ [x]))\<bar> < 2 ^ 53" by blast
  then show "\<bar>sum_list scores + x\<bar> < 2 ^ 53" by simp
qed

lemma jsSum_exact: "safePartialSums scores \<Longrightarrow> jsSum scores = Fin (sum_list scores)"
proof (induction scores rule: rev_induct)
  case Nil
  show ?case by (simp add: jsSum_def)
next
  case (snoc x scores)
  from safePartialSums_snoc [OF snoc.prems]
  have safe: "safePartialSums scores" and top: "\<bar>sum_list scores + x\<bar> < 2 ^ 53" .
  from snoc.IH [OF safe] have "jsSum (scores @ [x]) = roundToDouble (sum_list scores + x)"
    by (simp add: jsSum_snoc)
  with top show ?case by (simp add: roundToDouble_safe)
qed

lemma makeChoice_preserves:
  assumes "totalsMatchHistory s" and "makeChoice config s p c = Inr s'"
  shows "totalsMatchHistory s'"
  using assms
  by (auto simp: makeChoice_def totalsMatchHistory_def Let_def jsSum_snoc
      split: if_splits option.splits sum.splits)

lemma afterChoice_preserves:
  "totalsMatchHistory s \<Longrightarrow> totalsMatchHistory (afterChoice config s a)"
  by (auto simp: afterChoice_def split: sum.splits dest: makeChoice_preserves)

lemma playChoices_preserves:
  "totalsMatchHistory s \<Longrightarrow> totalsMatchHistory (playChoices config s actions)"
  unfolding playChoices_def
  by (induction actions arbitrary: s) (simp_all add: afterChoice_preserves)

text \<open>
  Claim C8 (as amended). After any sequence of \<open>makeChoice\<close> calls from a fresh
  game, each running total equals the sum of the corresponding score over
  the round history as the code's own addition forms it, from \<open>0\<close> and in the
  order of the history; every single \<open>makeChoice\<close> transition preserves this.
  The total equals the exact sum of the scores whenever every partial sum of
  the history is a safe integer.
\<close>

theorem totals_match_history:
  "totalsMatchHistory (playChoices config (startNewGame newId) actions)
 \<and> (totalsMatchHistory s \<and> makeChoice config s p c = Inr s' \<longrightarrow> totalsMatchHistory s')
 \<and> (safePartialSums (map round_player1Score (rounds (playChoices config (startNewGame newId) actions))) \<longrightarrow>
      player1Total (playChoices config (startNewGame newId) actions)
        = Fin (sum_list (map round_player1Score
                 (rounds (playChoices config (startNewGame newId) actions)))))
 \<and> (safePartialSums (map round_player2Score (rounds (playChoices config (startNewGame newId) actions))) \<longrightarrow>
      player2Total (playChoices config (startNewGame newId) actions)
        = Fin (sum_list (map round_player2Score
                 (rounds (playChoices config (startNewGame newId) actions)))))"
proof -
  let ?s = "playChoices config (startNewGame newId) actions"
  have "totalsMatchHistory (startNewGame newId)"
    by (simp add: totalsMatchHistory_def startNewGame_def jsSum_def)
  then have inv: "totalsMatchHistory ?s"
    by (rule playChoices_preserves)
  have step: "totalsMatchHistory s \<and> makeChoice config s p c = Inr s' \<longrightarrow> totalsMatchHistory s'"
    by (blast intro: makeChoice_preserves)
  from inv have
    "safePartialSums (map round_player1Score (rounds ?s)) \<longrightarrow>
       player1Total ?s = Fin (sum_list (map round_player1Score (rounds ?s)))"
    "safePartialSums (map round_player2Score (rounds ?s)) \<longrightarrow>
       player2Total ?s = Fin (sum_list (map round_player2Score (rounds ?s)))"
    by (simp_all add: totalsMatchHistory_def jsSum_exact)
  with inv step show ?thesis by blast
qed

lemma sample_play:
  "rounds sampleSnapshot
     = [\<lparr>round_player1Choice = ''hawk'', round_player2Choice = ''dove'',
         round_player1Score = 3, round_player2Score = 0\<rparr>,
        \<lparr>round_player1Choice = ''dove'', round_player2Choice = ''dove'',
         round_player1Score = 2, round_player2Score = 2\<rparr>]"
  by code_simp

lemma sample_safe:
  "safePartialSums [3, 2]" "safePartialSums [0, 2]"
  by code_simp+

theorem totals_match_history_witness:
  "rounds sampleSnapshot
     = [\<lparr>round_player1Choice = ''hawk'', round_player2Choice = ''dove'',
         round_player1Score = 3, round_player2Score = 0\<rparr>,
        \<lparr>round_player1Choice = ''dove'', round_player2Choice = ''dove'',
         round_player1Score = 2, round_player2Score = 2\<rparr>]
   \<and> safePartialSums [3, 2] \<and> safePartialSums [0, 2]
   \<and> player1Total sampleSnapshot = Fin 5
   \<and> player2Total sampleSnapshot = Fin 2"
  using totals_match_history [of sampleConfig "''game-1''"
      "[(2, ''dove''), (1, ''hawk''), (1, ''dove''), (2, ''dove''), (2, ''hawk'')]"]
    sample_safe
  unfolding sampleSnapshot_def [symmetric] sample_play by simp

text \<open>
  Claim C8 as stated, with the exact sum, fails beyond the safe integers. The
  configuration with the scores \<open>2 ^ 53\<close> and 1 is accepted by the loader; after
  the rounds (hawk, hawk) and (dove, dove) the history holds the scores
  \<open>9007199254740992\<close> and \<open>1\<close> for player 1, whose sum is \<open>9007199254740993\<close>, and
  the total is \<open>9007199254740992\<close>.
\<close>

theorem totals_exact_sum_counterexample:
  "loadGameConfig (\<lambda>u. True) precisionConfig None = Inr precisionConfig
   \<and> map round_player1Score
       (rounds (playChoices precisionConfig (startNewGame ''game-3'')
          [(1, ''hawk''), (2, ''hawk''), (1, ''dove''), (2, ''dove'')]))
     = [9007199254740992, 1]
   \<and> player1Total (playChoices precisionConfig (startNewGame ''game-3'')
          [(1, ''hawk''), (2, ''hawk''), (1, ''dove''), (2, ''dove'')])
     = Fin 9007199254740992
   \<and> sum_list [9007199254740992, 1] = (9007199254740993 :: int)"
  by code_simp

end
